theory Spec2Isabelle
  imports Main
begin

section \<open>JavaScript values and the platform\<close>

text \<open>
  The extension is three scripts: the storage module \<open>BoothShopStorage\<close>, the content
  script of the listing pages and the user interface of the shop pages. Their state is
  the extension's storage area, the DOM of the page and the console. All three are
  fields of one record that every function takes and returns.
\<close>

datatype js_error = TypeError | StorageError

text \<open>
  \<open>new URL(url).hostname\<close> belongs to the browser, not to the extension: the functions
  take it as a parameter. It returns the host name, or the \<open>TypeError\<close> that the
  constructor throws on a string that is no absolute URL.
\<close>

type_synonym url_parser = "string \<Rightarrow> js_error + string"

text \<open>
  The names every plain object inherits from \<open>Object.prototype\<close>. The operator
  \<open>in\<close> and a property read \<open>obj[key]\<close> follow the prototype chain, so they find
  these names in every object literal and in every value that the storage area returns.
\<close>

definition Object_prototype_keys :: "string list" where
  "Object_prototype_keys =
     [''constructor'', ''__defineGetter__'', ''__defineSetter__'', ''hasOwnProperty'',
      ''__lookupGetter__'', ''__lookupSetter__'', ''isPrototypeOf'',
      ''propertyIsEnumerable'', ''toString'', ''valueOf'', ''__proto__'',
      ''toLocaleString'']"

record shop_record =
  name :: string
  reason :: string
  timestamp :: int

text \<open>A blocklist object: its own properties, keyed by shop id.\<close>

type_synonym blocklist = "string \<rightharpoonup> shop_record"

text \<open>\<open>key in obj\<close>: an own property or an inherited one.\<close>

definition js_in :: "string \<Rightarrow> blocklist \<Rightarrow> bool" where
  "js_in key obj \<longleftrightarrow> obj key \<noteq> None \<or> key \<in> set Object_prototype_keys"

text \<open>
  \<open>obj[key] = v\<close>: creates or overwrites the own property, except that \<open>__proto__\<close>
  (when it is not an own property) is the inherited setter, which replaces the
  prototype of the object and adds no own property.
\<close>

definition js_assign :: "string \<Rightarrow> shop_record \<Rightarrow> blocklist \<Rightarrow> blocklist" where
  "js_assign key v obj =
     (if key = ''__proto__'' \<and> obj key = None then obj else obj(key \<mapsto> v))"

text \<open>\<open>delete obj[key]\<close> removes an own property and nothing else.\<close>

definition js_delete :: "string \<Rightarrow> blocklist \<Rightarrow> blocklist" where
  "js_delete key obj = obj(key := None)"

section \<open>State\<close>

datatype storage_call = StorageGet | StorageSet

text \<open>
  \<open>browser.storage.local\<close>: the value under the key \<open>blockedShops\<close> (\<open>None\<close> when the
  key was never written), whether \<open>get\<close> and \<open>set\<close> reject, and the calls issued so far.
\<close>

record storage_area =
  blockedShops :: "blocklist option"
  get_rejects :: bool
  set_rejects :: bool
  calls :: "storage_call list"

text \<open>
  A DOM node. The scripts never change the shape of the tree, so a node carries the
  list of its descendants in document order; nodes are referred to by their address
  in the store \<open>nodes\<close>. The inline style is kept apart from the other attributes:
  \<open>style_display\<close> is the value of \<open>style.display\<close> (empty when the declaration block has
  no \<open>display\<close>), the only declaration that the scripts touch, and \<open>style_attribute\<close>
  says whether the element has a \<open>style\<close> content attribute. \<open>attributes\<close> are the other
  attributes.
\<close>

record element =
  nodeType :: nat
  classList :: "string list"
  attributes :: "string \<rightharpoonup> string"
  style_display :: string
  style_attribute :: bool
  descendants :: "nat list"

record world =
  storage :: storage_area
  nodes :: "nat \<rightharpoonup> element"
  document_order :: "nat list"
  console :: "string list"

definition ELEMENT_NODE :: nat where
  "ELEMENT_NODE = 1"

definition console_error :: "string \<Rightarrow> world \<Rightarrow> world" where
  "console_error msg w = w\<lparr>console := console w @ [msg]\<rparr>"

section \<open>The content script\<close>

subsection \<open>extractShopId\<close>

text \<open>
  \<open>hostname.match(/^([^.]+)\.booth\.pm$/)\<close>: the group is a non-empty run of
  characters other than the dot, so it is the text before the first dot, and the rest
  of the host name is \<open>.booth.pm\<close>. The result is the group \<open>match[1]\<close>.
\<close>

definition match_shop_host :: "string \<Rightarrow> string option" where
  "match_shop_host hostname =
     (let sub = takeWhile (\<lambda>c. c \<noteq> CHR ''.'') hostname;
          rest = dropWhile (\<lambda>c. c \<noteq> CHR ''.'') hostname
      in if sub \<noteq> [] \<and> rest = ''.booth.pm'' then Some sub else None)"

text \<open>
  The body of the \<open>try\<close> block: \<open>Inl\<close> is the exception of the URL constructor,
  \<open>Inr None\<close> is falling out of the block without a \<open>return\<close>.
\<close>

definition extractShopId_try :: "url_parser \<Rightarrow> string \<Rightarrow> js_error + string option" where
  "extractShopId_try URL_hostname url =
     (case URL_hostname url of
        Inl e \<Rightarrow> Inl e
      | Inr hostname \<Rightarrow>
          (case match_shop_host hostname of
             None \<Rightarrow> Inr None
           | Some m \<Rightarrow>
               if m \<noteq> ''accounts'' \<and> m \<noteq> ''www'' then Inr (Some m) else Inr None))"

text \<open>
  The argument is the value of \<open>getAttribute('href')\<close>: \<open>None\<close> is \<open>null\<close>. \<open>!url\<close>
  holds for \<open>null\<close> and for the empty string. The \<open>catch\<close> block logs and falls through
  to \<open>return null\<close>.
\<close>

definition extractShopId :: "url_parser \<Rightarrow> string option \<Rightarrow> world \<Rightarrow> string option \<times> world" where
  "extractShopId URL_hostname url w =
     (case url of
        None \<Rightarrow> (None, w)
      | Some u \<Rightarrow>
          if u = [] then (None, w)
          else (case extractShopId_try URL_hostname u of
                  Inl e \<Rightarrow> (None, console_error ''Failed to parse URL:'' w)
                | Inr r \<Rightarrow> (r, w)))"

subsection \<open>DOM access\<close>

definition hasAttribute :: "string \<Rightarrow> element \<Rightarrow> bool" where
  "hasAttribute a e \<longleftrightarrow> attributes e a \<noteq> None"

definition setAttribute :: "string \<Rightarrow> string \<Rightarrow> element \<Rightarrow> element" where
  "setAttribute a v e = e\<lparr>attributes := (attributes e)(a \<mapsto> v)\<rparr>"

definition removeAttribute :: "string \<Rightarrow> element \<Rightarrow> element" where
  "removeAttribute a e = e\<lparr>attributes := (attributes e)(a := None)\<rparr>"

text \<open>Applying a mutation to the node at an address; the other nodes are untouched.\<close>

definition update_node :: "nat \<Rightarrow> (element \<Rightarrow> element) \<Rightarrow> world \<Rightarrow> world" where
  "update_node i f w =
     (case nodes w i of
        None \<Rightarrow> w
      | Some e \<Rightarrow> w\<lparr>nodes := (nodes w)(i \<mapsto> f e)\<rparr>)"

definition has_class :: "string \<Rightarrow> world \<Rightarrow> nat \<Rightarrow> bool" where
  "has_class c w i = (case nodes w i of None \<Rightarrow> False | Some e \<Rightarrow> c \<in> set (classList e))"

text \<open>\<open>node.querySelectorAll('.c')\<close> and \<open>node.querySelector('.c')\<close>.\<close>

definition querySelectorAll_class :: "string \<Rightarrow> nat \<Rightarrow> world \<Rightarrow> nat list" where
  "querySelectorAll_class c i w =
     (case nodes w i of
        None \<Rightarrow> []
      | Some e \<Rightarrow> filter (has_class c w) (descendants e))"

definition querySelector_class :: "string \<Rightarrow> nat \<Rightarrow> world \<Rightarrow> nat option" where
  "querySelector_class c i w =
     (case querySelectorAll_class c i w of [] \<Rightarrow> None | a # _ \<Rightarrow> Some a)"

definition getAttribute :: "string \<Rightarrow> nat \<Rightarrow> world \<Rightarrow> string option" where
  "getAttribute a i w = (case nodes w i of None \<Rightarrow> None | Some e \<Rightarrow> attributes e a)"

subsection \<open>Classifying one item card\<close>

definition getShopIdFromItemCard :: "url_parser \<Rightarrow> nat \<Rightarrow> world \<Rightarrow> string option \<times> world" where
  "getShopIdFromItemCard URL_hostname itemCard w =
     (case querySelector_class ''item-card__shop-name-anchor'' itemCard w of
        None \<Rightarrow> (None, w)
      | Some shopLink \<Rightarrow> extractShopId URL_hostname (getAttribute ''href'' shopLink w) w)"

text \<open>
  Writing \<open>style.display\<close> changes the declaration block, and the browser then rewrites
  the \<open>style\<close> content attribute from the block. \<open>style.display = 'none'\<close> sets the
  declaration, so the element has the attribute afterwards. \<open>style.display = ''\<close> removes
  the declaration; the attribute is rewritten only when there was a declaration to
  remove, and it stays on the element, with an empty value when nothing else is in
  the block.
\<close>

definition hide_element :: "element \<Rightarrow> element" where
  "hide_element e =
     setAttribute ''data-blocked-shop'' ''true''
       (e\<lparr>style_display := ''none'', style_attribute := True\<rparr>)"

definition show_element :: "element \<Rightarrow> element" where
  "show_element e =
     removeAttribute ''data-blocked-shop''
       (e\<lparr>style_display := [],
          style_attribute := (if style_display e \<noteq> [] then True else style_attribute e)\<rparr>)"

definition hideItemCard :: "nat \<Rightarrow> world \<Rightarrow> world" where
  "hideItemCard itemCard w = update_node itemCard hide_element w"

definition showItemCard :: "nat \<Rightarrow> world \<Rightarrow> world" where
  "showItemCard itemCard w = update_node itemCard show_element w"

text \<open>
  \<open>blockedShops\<close> is always an object here, so \<open>blockedShops && ...\<close> is the membership
  test alone. \<open>!shopId\<close> holds for \<open>null\<close> and for the empty string.
\<close>

definition processItemCard :: "url_parser \<Rightarrow> nat \<Rightarrow> blocklist \<Rightarrow> world \<Rightarrow> world" where
  "processItemCard URL_hostname itemCard blocked w =
     (case nodes w itemCard of
        None \<Rightarrow> w
      | Some e \<Rightarrow>
          if hasAttribute ''data-shop-blocker-processed'' e then w
          else
            (let w1 = update_node itemCard (setAttribute ''data-shop-blocker-processed'' ''true'') w;
                 (shopId, w2) = getShopIdFromItemCard URL_hostname itemCard w1
             in case shopId of
                  None \<Rightarrow> w2
                | Some s \<Rightarrow>
                    if s = [] then w2
                    else
                      (let w3 = update_node itemCard (setAttribute ''data-shop-id'' s) w2
                       in if js_in s blocked then hideItemCard itemCard w3 else w3)))"

section \<open>The storage module\<close>

text \<open>
  \<open>browser.storage.local.get\<close> and \<open>set\<close>: a rejected promise is \<open>Inl\<close>; \<open>get\<close> returns
  the value stored under the key, \<open>None\<close> when there is none.
\<close>

definition local_get :: "world \<Rightarrow> (js_error + blocklist option) \<times> world" where
  "local_get w =
     (let st = storage w;
          w' = w\<lparr>storage := st\<lparr>calls := calls st @ [StorageGet]\<rparr>\<rparr>
      in if get_rejects st then (Inl StorageError, w') else (Inr (blockedShops st), w'))"

definition local_set :: "blocklist \<Rightarrow> world \<Rightarrow> (js_error + unit) \<times> world" where
  "local_set v w =
     (let st = storage w;
          st' = st\<lparr>calls := calls st @ [StorageSet]\<rparr>
      in if set_rejects st then (Inl StorageError, w\<lparr>storage := st'\<rparr>)
         else (Inr (), w\<lparr>storage := st'\<lparr>blockedShops := Some v\<rparr>\<rparr>))"

text \<open>\<open>result[this.STORAGE_KEY] || {}\<close>; the \<open>catch\<close> block logs and returns \<open>{}\<close>.\<close>

definition getAllBlocked :: "world \<Rightarrow> blocklist \<times> world" where
  "getAllBlocked w =
     (case local_get w of
        (Inl e, w') \<Rightarrow> (Map.empty, console_error ''Failed to get blocked shops:'' w')
      | (Inr result, w') \<Rightarrow> ((case result of None \<Rightarrow> Map.empty | Some b \<Rightarrow> b), w'))"

definition isBlocked :: "string \<Rightarrow> world \<Rightarrow> bool \<times> world" where
  "isBlocked shopId w = (let (blocked, w') = getAllBlocked w in (js_in shopId blocked, w'))"

text \<open>
  \<open>Date.now()\<close> is the parameter \<open>now\<close>. The write is the only statement of the \<open>try\<close>
  block that can throw, since \<open>getAllBlocked\<close> catches its own failure.
\<close>

definition blockShop :: "string \<Rightarrow> string \<Rightarrow> string \<Rightarrow> int \<Rightarrow> world \<Rightarrow> bool \<times> world" where
  "blockShop shopId shopName reason' now w =
     (let (blocked, w1) = getAllBlocked w;
          blocked' = js_assign shopId \<lparr>name = shopName, reason = reason', timestamp = now\<rparr> blocked
      in case local_set blocked' w1 of
           (Inl e, w2) \<Rightarrow> (False, console_error ''Failed to block shop:'' w2)
         | (Inr u, w2) \<Rightarrow> (True, w2))"

definition unblockShop :: "string \<Rightarrow> world \<Rightarrow> bool \<times> world" where
  "unblockShop shopId w =
     (let (blocked, w1) = getAllBlocked w;
          blocked' = js_delete shopId blocked
      in case local_set blocked' w1 of
           (Inl e, w2) \<Rightarrow> (False, console_error ''Failed to unblock shop:'' w2)
         | (Inr u, w2) \<Rightarrow> (True, w2))"

text \<open>
  A property read \<open>blocked[shopId]\<close>: the own record, else what \<open>Object.prototype\<close>
  has under that name (a function, or the prototype itself), else \<open>undefined\<close>.
\<close>

datatype property_value = Undefined | Record shop_record | Inherited

definition js_get :: "string \<Rightarrow> blocklist \<Rightarrow> property_value" where
  "js_get key obj =
     (case obj key of
        Some r \<Rightarrow> Record r
      | None \<Rightarrow> if key \<in> set Object_prototype_keys then Inherited else Undefined)"

text \<open>\<open>blocked[shopId] || null\<close>: \<open>Undefined\<close> stands for the \<open>null\<close> returned.\<close>

definition getShopInfo :: "string \<Rightarrow> world \<Rightarrow> property_value \<times> world" where
  "getShopInfo shopId w = (let (blocked, w') = getAllBlocked w in (js_get shopId blocked, w'))"

text \<open>
  Records and inherited values are all truthy. On an inherited value the assignment
  \<open>blocked[shopId].reason = reason\<close> lands on the inherited object, so the own
  properties written back are the ones read.
\<close>

definition updateReason :: "string \<Rightarrow> string \<Rightarrow> world \<Rightarrow> bool \<times> world" where
  "updateReason shopId reason' w =
     (let (blocked, w1) = getAllBlocked w
      in case js_get shopId blocked of
           Undefined \<Rightarrow> (False, w1)
         | found \<Rightarrow>
             (let blocked' = (case found of
                                Record r \<Rightarrow> blocked(shopId \<mapsto> r\<lparr>reason := reason'\<rparr>)
                              | _ \<Rightarrow> blocked)
              in case local_set blocked' w1 of
                   (Inl e, w2) \<Rightarrow> (False, console_error ''Failed to update reason:'' w2)
                 | (Inr u, w2) \<Rightarrow> (True, w2)))"

section \<open>The content script: passes over the page\<close>

definition processAllItemCards :: "url_parser \<Rightarrow> world \<Rightarrow> world" where
  "processAllItemCards URL_hostname w =
     (let (blocked, w1) = getAllBlocked w;
          itemCards = filter (has_class ''item-card'' w1) (document_order w1)
      in fold (\<lambda>itemCard. processItemCard URL_hostname itemCard blocked) itemCards w1)"

record mutation_record =
  addedNodes :: "nat list"

text \<open>The body of \<open>mutation.addedNodes.forEach\<close>.\<close>

definition process_added_node :: "url_parser \<Rightarrow> blocklist \<Rightarrow> nat \<Rightarrow> world \<Rightarrow> world" where
  "process_added_node URL_hostname blocked node w =
     (case nodes w node of
        None \<Rightarrow> w
      | Some e \<Rightarrow>
          if nodeType e = ELEMENT_NODE then
            (let w1 = (if ''item-card'' \<in> set (classList e)
                       then processItemCard URL_hostname node blocked w else w);
                 itemCards = querySelectorAll_class ''item-card'' node w1
             in fold (\<lambda>itemCard. processItemCard URL_hostname itemCard blocked) itemCards w1)
          else w)"

text \<open>
  The callback of the \<open>MutationObserver\<close>. Its first argument is the value of
  \<open>blockedShopsPromise\<close>, the promise that \<open>observeNewItems\<close> created.
\<close>

definition observer_callback :: "url_parser \<Rightarrow> blocklist \<Rightarrow> mutation_record list \<Rightarrow> world \<Rightarrow> world" where
  "observer_callback URL_hostname blocked mutations w =
     fold (\<lambda>mutation. fold (process_added_node URL_hostname blocked) (addedNodes mutation))
       mutations w"

text \<open>
  \<open>observeNewItems\<close> reads the storage once, when it is called, and returns the observer:
  the callback with that value in its closure.
\<close>

definition observeNewItems :: "world \<Rightarrow> blocklist \<times> world" where
  "observeNewItems w = getAllBlocked w"

record storage_change =
  oldValue :: "blocklist option"
  newValue :: "blocklist option"

text \<open>The body of \<open>itemCards.forEach\<close> in the listener of \<open>storage.onChanged\<close>.\<close>

definition reconcile_card :: "blocklist \<Rightarrow> nat \<Rightarrow> world \<Rightarrow> world" where
  "reconcile_card newBlockedShops itemCard w =
     (case getAttribute ''data-shop-id'' itemCard w of
        None \<Rightarrow> w
      | Some shopId \<Rightarrow>
          if shopId = [] then w
          else if js_in shopId newBlockedShops then hideItemCard itemCard w
          else showItemCard itemCard w)"

text \<open>
  The listener that \<open>observeStorageChanges\<close> registers. \<open>changes.blockedShops\<close> is \<open>None\<close>
  when the notification is about other keys; \<open>newValue || {}\<close>; the selector is
  \<open>.item-card[data-shop-id]\<close>.
\<close>

definition storage_listener :: "storage_change option \<Rightarrow> string \<Rightarrow> world \<Rightarrow> world" where
  "storage_listener changes_blockedShops areaName w =
     (case changes_blockedShops of
        None \<Rightarrow> w
      | Some change \<Rightarrow>
          if areaName \<noteq> ''local'' then w
          else
            (let newBlockedShops = (case newValue change of None \<Rightarrow> Map.empty | Some b \<Rightarrow> b);
                 itemCards = filter (\<lambda>i. has_class ''item-card'' w i
                                        \<and> getAttribute ''data-shop-id'' i w \<noteq> None)
                               (document_order w)
             in fold (reconcile_card newBlockedShops) itemCards w))"

text \<open>\<open>hostname === 'booth.pm' || /\.booth\.pm$/.test(hostname)\<close>.\<close>

definition isItemListPage :: "string \<Rightarrow> bool" where
  "isItemListPage hostname \<longleftrightarrow>
     hostname = ''booth.pm'' \<or> drop (length hostname - 9) hostname = ''.booth.pm''"

text \<open>
  \<open>init\<close> returns the value captured by the observer it installed, \<open>None\<close> when the page
  is not a listing page and nothing is installed.
\<close>

definition init :: "url_parser \<Rightarrow> string \<Rightarrow> world \<Rightarrow> blocklist option \<times> world" where
  "init URL_hostname location_hostname w =
     (if \<not> isItemListPage location_hostname then (None, w)
      else
        (let w1 = processAllItemCards URL_hostname w;
             (blocked, w2) = observeNewItems w1
         in (Some blocked, w2)))"

text \<open>
  What happens to a page after \<open>init\<close>: the page's own scripts change the DOM, the
  observer delivers a batch, some context (the popup, a shop page) writes the stored
  blocklist, the browser delivers a change notification. The events come in any order.
\<close>

datatype event =
    DomChanged "nat \<rightharpoonup> element" "nat list"
  | MutationBatch "mutation_record list"
  | StorageWritten "blocklist option"
  | StorageChanged "storage_change option" string

definition page_step :: "url_parser \<Rightarrow> blocklist \<Rightarrow> event \<Rightarrow> world \<Rightarrow> world" where
  "page_step URL_hostname captured ev w =
     (case ev of
        DomChanged ns order \<Rightarrow> w\<lparr>nodes := ns, document_order := order\<rparr>
      | MutationBatch mutations \<Rightarrow> observer_callback URL_hostname captured mutations w
      | StorageWritten v \<Rightarrow> w\<lparr>storage := (storage w)\<lparr>blockedShops := v\<rparr>\<rparr>
      | StorageChanged change areaName \<Rightarrow> storage_listener change areaName w)"

definition run_page :: "url_parser \<Rightarrow> blocklist \<Rightarrow> event list \<Rightarrow> world \<Rightarrow> world" where
  "run_page URL_hostname captured evs w = fold (page_step URL_hostname captured) evs w"

text \<open>The state of a listing element that the specification speaks of.\<close>

definition hidden :: "element \<Rightarrow> bool" where
  "hidden e \<longleftrightarrow> style_display e = ''none'' \<and> attributes e ''data-blocked-shop'' = Some ''true''"

definition visible :: "element \<Rightarrow> bool" where
  "visible e \<longleftrightarrow> style_display e \<noteq> ''none'' \<and> attributes e ''data-blocked-shop'' = None"

text \<open>
  A stand-in for the URL constructor on the inputs of the examples: an \<open>https\<close> URL
  with a plain host name, everything else rejected.
\<close>

definition https_hostname :: url_parser where
  "https_hostname url =
     (if take 8 url = ''https://''
      then (let host = takeWhile (\<lambda>c. c \<noteq> CHR ''/'') (drop 8 url)
            in if host = [] then Inl TypeError else Inr host)
      else Inl TypeError)"

section \<open>Auxiliary definitions\<close>

text \<open>
  What \<open>processItemCard\<close> does to the classified node itself, given the shop id that its
  link yields, and what the storage listener does to a node it visits.
\<close>

definition classify_element :: "string option \<Rightarrow> blocklist \<Rightarrow> element \<Rightarrow> element" where
  "classify_element shopId blocked e =
     (if hasAttribute ''data-shop-blocker-processed'' e then e
      else
        (let e1 = setAttribute ''data-shop-blocker-processed'' ''true'' e
         in case shopId of
              None \<Rightarrow> e1
            | Some s \<Rightarrow>
                if s = [] then e1
                else
                  (let e3 = setAttribute ''data-shop-id'' s e1
                   in if js_in s blocked then hide_element e3 else e3)))"

definition reconcile_element :: "blocklist \<Rightarrow> element \<Rightarrow> element" where
  "reconcile_element newBlockedShops e =
     (case attributes e ''data-shop-id'' of
        None \<Rightarrow> e
      | Some shopId \<Rightarrow>
          if shopId = [] then e
          else if js_in shopId newBlockedShops then hide_element e else show_element e)"

text \<open>The blocklist that the storage area holds: \<open>{}\<close> when the key is unset.\<close>

definition stored_blocklist :: "storage_area \<Rightarrow> blocklist" where
  "stored_blocklist st = (case blockedShops st of None \<Rightarrow> Map.empty | Some b \<Rightarrow> b)"

text \<open>
  The browser delivering the change notification of a write that took the storage from
  \<open>before\<close> to \<open>after\<close>, and a block or an unblock followed by its notification.
\<close>

definition notify :: "world \<Rightarrow> world \<Rightarrow> world" where
  "notify before after =
     storage_listener
       (Some \<lparr>oldValue = blockedShops (storage before), newValue = blockedShops (storage after)\<rparr>)
       ''local'' after"

definition after_block :: "string \<Rightarrow> string \<Rightarrow> string \<Rightarrow> int \<Rightarrow> world \<Rightarrow> world" where
  "after_block shopId shopName reason' now w = notify w (snd (blockShop shopId shopName reason' now w))"

definition after_unblock :: "string \<Rightarrow> world \<Rightarrow> world" where
  "after_unblock shopId w = notify w (snd (unblockShop shopId w))"

text \<open>
  What the selectors and the link of a card depend on: node type, classes, descendants
  and \<open>href\<close> of every node. Classification changes none of them.
\<close>

definition links_of :: "world \<Rightarrow> nat \<Rightarrow> (nat \<times> string list \<times> nat list \<times> string option) option" where
  "links_of w j =
     map_option (\<lambda>e. (nodeType e, classList e, descendants e, attributes e ''href'')) (nodes w j)"

text \<open>The item cards that the observer finds for one added node.\<close>

definition found_cards :: "world \<Rightarrow> nat \<Rightarrow> nat set" where
  "found_cards w n =
     (case nodes w n of
        None \<Rightarrow> {}
      | Some e \<Rightarrow>
          if nodeType e = ELEMENT_NODE
          then (if ''item-card'' \<in> set (classList e) then {n} else {})
                 \<union> set (querySelectorAll_class ''item-card'' n w)
          else {})"

definition discovered :: "world \<Rightarrow> mutation_record list \<Rightarrow> nat set" where
  "discovered w mutations = (\<Union>m \<in> set mutations. \<Union>n \<in> set (addedNodes m). found_cards w n)"

section \<open>Example pages\<close>

definition idle_storage :: storage_area where
  "idle_storage = \<lparr>blockedShops = None, get_rejects = False, set_rejects = False, calls = []\<rparr>"

definition blank_page :: world where
  "blank_page = \<lparr>storage = idle_storage, nodes = Map.empty, document_order = [], console = []\<rparr>"

definition item_card :: element where
  "item_card =
     \<lparr>nodeType = 1, classList = [''item-card''], attributes = Map.empty, style_display = [],
      style_attribute = False, descendants = [11]\<rparr>"

definition shop_anchor :: "string \<Rightarrow> element" where
  "shop_anchor href =
     \<lparr>nodeType = 1, classList = [''item-card__shop-name-anchor''],
      attributes = [''href'' \<mapsto> href], style_display = [], style_attribute = False,
      descendants = []\<rparr>"

definition listing_page :: "string \<Rightarrow> world" where
  "listing_page href =
     \<lparr>storage = idle_storage, nodes = [10 \<mapsto> item_card, 11 \<mapsto> shop_anchor href],
      document_order = [10, 11], console = []\<rparr>"

definition a_record :: shop_record where
  "a_record = \<lparr>name = ''A shop'', reason = ''spam'', timestamp = 1700000000000\<rparr>"

definition classified_card :: "string \<Rightarrow> string \<Rightarrow> element" where
  "classified_card shopId display =
     \<lparr>nodeType = 1, classList = [''item-card''],
      attributes = [''data-shop-blocker-processed'' \<mapsto> ''true'', ''data-shop-id'' \<mapsto> shopId],
      style_display = display, style_attribute = (display \<noteq> []), descendants = [11]\<rparr>"

definition classified_page :: "string \<Rightarrow> string \<Rightarrow> world" where
  "classified_page shopId display =
     \<lparr>storage = idle_storage,
      nodes = [10 \<mapsto> classified_card shopId display,
               11 \<mapsto> shop_anchor (''https://'' @ shopId @ ''.booth.pm/'')],
      document_order = [10, 11], console = []\<rparr>"

definition empty_blocklist :: blocklist where
  "empty_blocklist = Map.empty"

definition foo_blocklist :: blocklist where
  "foo_blocklist = [''foo'' \<mapsto> a_record]"

definition foo_world :: world where
  "foo_world = blank_page\<lparr>storage := idle_storage\<lparr>blockedShops := Some foo_blocklist\<rparr>\<rparr>"

definition unreadable_world :: world where
  "unreadable_world =
     blank_page\<lparr>storage := idle_storage\<lparr>blockedShops := Some foo_blocklist, get_rejects := True\<rparr>\<rparr>"

definition readonly_world :: world where
  "readonly_world =
     blank_page\<lparr>storage := idle_storage\<lparr>blockedShops := Some foo_blocklist, set_rejects := True\<rparr>\<rparr>"

definition late_events :: "event list" where
  "late_events =
     [StorageWritten (Some foo_blocklist),
      DomChanged (nodes (listing_page ''https://foo.booth.pm/items/123'')) [10, 11]]"

definition late_unblock_events :: "event list" where
  "late_unblock_events =
     [StorageWritten (Some empty_blocklist),
      DomChanged (nodes (listing_page ''https://foo.booth.pm/items/123'')) [10, 11]]"

section \<open>The identifier extractor\<close>

text \<open>
  The regular expression accepts exactly the host names that are one non-empty label
  without a dot followed by \<open>.booth.pm\<close>, and the group is that label.
\<close>

lemma match_shop_host_Some_iff:
  "match_shop_host h = Some i \<longleftrightarrow> h = i @ ''.booth.pm'' \<and> i \<noteq> [] \<and> CHR ''.'' \<notin> set i"
proof
  assume m: "match_shop_host h = Some i"
  let ?P = "\<lambda>c. c \<noteq> CHR ''.''"
  from m have i: "i = takeWhile ?P h" and ne: "i \<noteq> []" and r: "dropWhile ?P h = ''.booth.pm''"
    by (auto simp: match_shop_host_def Let_def split: if_splits)
  have "h = takeWhile ?P h @ dropWhile ?P h" by simp
  with i r have "h = i @ ''.booth.pm''" by simp
  moreover have "CHR ''.'' \<notin> set i" unfolding i by (auto dest: set_takeWhileD)
  ultimately show "h = i @ ''.booth.pm'' \<and> i \<noteq> [] \<and> CHR ''.'' \<notin> set i" using ne by simp
next
  assume a: "h = i @ ''.booth.pm'' \<and> i \<noteq> [] \<and> CHR ''.'' \<notin> set i"
  let ?P = "\<lambda>c. c \<noteq> CHR ''.''"
  from a have all: "\<forall>c\<in>set i. ?P c" by auto
  have t: "takeWhile ?P (i @ ''.booth.pm'') = i"
    using all by (simp add: takeWhile_append2)
  have d: "dropWhile ?P (i @ ''.booth.pm'') = ''.booth.pm''"
    using all by (simp add: dropWhile_append2)
  show "match_shop_host h = Some i"
    using a t d by (simp add: match_shop_host_def Let_def)
qed

text \<open>
  C2, as amended. When the host name that the URL constructor returns is \<open>i.booth.pm\<close>
  for a non-empty label \<open>i\<close> without a dot, \<open>extractShopId\<close> returns \<open>i\<close>, or nothing when
  \<open>i\<close> is \<open>accounts\<close> or \<open>www\<close>, and changes no state. For a host name of any other
  form, for \<open>null\<close> and for the empty string it returns nothing and changes no state.
  When the constructor throws (a relative or malformed URL), it returns nothing, no
  exception leaves the function, and one message is written to the console: that
  message is its only effect.
\<close>

theorem extractShopId_spec:
  "(url = Some u \<and> u \<noteq> [] \<and> URL_hostname u = Inr (i @ ''.booth.pm'') \<and> i \<noteq> [] \<and> CHR ''.'' \<notin> set i
      \<longrightarrow> extractShopId URL_hostname url w = (if i = ''accounts'' \<or> i = ''www'' then None else Some i, w))
   \<and> (url = Some u \<and> u \<noteq> [] \<and> URL_hostname u = Inr h
        \<and> (\<forall>j. j \<noteq> [] \<and> CHR ''.'' \<notin> set j \<longrightarrow> h \<noteq> j @ ''.booth.pm'')
      \<longrightarrow> extractShopId URL_hostname url w = (None, w))
   \<and> (url = Some u \<and> u \<noteq> [] \<and> URL_hostname u = Inl e
      \<longrightarrow> extractShopId URL_hostname url w = (None, console_error ''Failed to parse URL:'' w))
   \<and> (url = None \<or> url = Some [] \<longrightarrow> extractShopId URL_hostname url w = (None, w))"
proof (intro conjI impI)
  assume a: "url = Some u \<and> u \<noteq> [] \<and> URL_hostname u = Inr (i @ ''.booth.pm'') \<and> i \<noteq> [] \<and> CHR ''.'' \<notin> set i"
  then have "match_shop_host (i @ ''.booth.pm'') = Some i"
    by (simp add: match_shop_host_Some_iff)
  with a show "extractShopId URL_hostname url w = (if i = ''accounts'' \<or> i = ''www'' then None else Some i, w)"
    by (simp add: extractShopId_def extractShopId_try_def)
next
  assume a: "url = Some u \<and> u \<noteq> [] \<and> URL_hostname u = Inr h
        \<and> (\<forall>j. j \<noteq> [] \<and> CHR ''.'' \<notin> set j \<longrightarrow> h \<noteq> j @ ''.booth.pm'')"
  have "match_shop_host h = None"
  proof (cases "match_shop_host h")
    case (Some j)
    then show ?thesis using a by (auto simp: match_shop_host_Some_iff)
  qed simp
  with a show "extractShopId URL_hostname url w = (None, w)"
    by (simp add: extractShopId_def extractShopId_try_def)
next
  assume "url = Some u \<and> u \<noteq> [] \<and> URL_hostname u = Inl e"
  then show "extractShopId URL_hostname url w = (None, console_error ''Failed to parse URL:'' w)"
    by (simp add: extractShopId_def extractShopId_try_def)
next
  assume "url = None \<or> url = Some []"
  then show "extractShopId URL_hostname url w = (None, w)"
    by (auto simp: extractShopId_def)
qed

text \<open>
  The four cases on concrete links: a shop, the reserved label \<open>accounts\<close>, the bare
  domain, a relative URL, and an element without \<open>href\<close>.
\<close>

theorem extractShopId_spec_witness:
  "https_hostname ''https://foo.booth.pm/items/123'' = Inr (''foo'' @ ''.booth.pm'')
   \<and> extractShopId https_hostname (Some ''https://foo.booth.pm/items/123'') blank_page
       = (Some ''foo'', blank_page)
   \<and> https_hostname ''https://accounts.booth.pm/settings'' = Inr (''accounts'' @ ''.booth.pm'')
   \<and> extractShopId https_hostname (Some ''https://accounts.booth.pm/settings'') blank_page
       = (None, blank_page)
   \<and> https_hostname ''https://booth.pm/items/1'' = Inr ''booth.pm''
   \<and> extractShopId https_hostname (Some ''https://booth.pm/items/1'') blank_page
       = (None, blank_page)
   \<and> https_hostname ''/items/123'' = Inl TypeError
   \<and> extractShopId https_hostname (Some ''/items/123'') blank_page
       = (None, console_error ''Failed to parse URL:'' blank_page)
   \<and> extractShopId https_hostname None blank_page = (None, blank_page)"
proof -
  have h1: "https_hostname ''https://foo.booth.pm/items/123'' = Inr (''foo'' @ ''.booth.pm'')"
    by (simp add: https_hostname_def)
  have h2: "https_hostname ''https://accounts.booth.pm/settings'' = Inr (''accounts'' @ ''.booth.pm'')"
    by (simp add: https_hostname_def)
  have h3: "https_hostname ''https://booth.pm/items/1'' = Inr ''booth.pm''"
    by (simp add: https_hostname_def)
  have h3': "\<forall>j. j \<noteq> [] \<and> CHR ''.'' \<notin> set j \<longrightarrow> ''booth.pm'' \<noteq> j @ ''.booth.pm''"
    by (auto dest: arg_cong [where f = length])
  have h4: "https_hostname ''/items/123'' = Inl TypeError"
    by (simp add: https_hostname_def)
  have c1: "extractShopId https_hostname (Some ''https://foo.booth.pm/items/123'') blank_page
              = (Some ''foo'', blank_page)"
    using extractShopId_spec [of "Some ''https://foo.booth.pm/items/123''"
        "''https://foo.booth.pm/items/123''" https_hostname "''foo''" blank_page] h1
    by simp
  have c2: "extractShopId https_hostname (Some ''https://accounts.booth.pm/settings'') blank_page
              = (None, blank_page)"
    using extractShopId_spec [of "Some ''https://accounts.booth.pm/settings''"
        "''https://accounts.booth.pm/settings''" https_hostname "''accounts''" blank_page] h2
    by simp
  have c3: "extractShopId https_hostname (Some ''https://booth.pm/items/1'') blank_page
              = (None, blank_page)"
    using extractShopId_spec [of "Some ''https://booth.pm/items/1''"
        "''https://booth.pm/items/1''" https_hostname _ blank_page "''booth.pm''"] h3 h3'
    by simp
  have c4: "extractShopId https_hostname (Some ''/items/123'') blank_page
              = (None, console_error ''Failed to parse URL:'' blank_page)"
    using extractShopId_spec [of "Some ''/items/123''" "''/items/123''" https_hostname _
        blank_page _ TypeError] h4
    by simp
  have c5: "extractShopId https_hostname None blank_page = (None, blank_page)"
    using extractShopId_spec [of None _ https_hostname _ blank_page]
    by simp
  from h1 h2 h3 h4 c1 c2 c3 c4 c5 show ?thesis by simp
qed

text \<open>
  C2 as stated fails on a relative URL: the function returns nothing, but it has
  written to the console, so the state it returns is not the state it was given.
\<close>

theorem extractShopId_logs_counterexample:
  "fst (extractShopId https_hostname (Some ''/items/123'') blank_page) = None
   \<and> console (snd (extractShopId https_hostname (Some ''/items/123'') blank_page))
       = [''Failed to parse URL:'']
   \<and> snd (extractShopId https_hostname (Some ''/items/123'') blank_page) \<noteq> blank_page"
  by (simp add: extractShopId_def extractShopId_try_def https_hostname_def console_error_def
      blank_page_def)

section \<open>The card classifier\<close>

lemma update_node_fields [simp]:
  "storage (update_node i f w) = storage w"
  "document_order (update_node i f w) = document_order w"
  "console (update_node i f w) = console w"
  by (simp_all add: update_node_def split: option.splits)

lemma nodes_update_node:
  "nodes (update_node i f w) j =
     (if j = i then map_option f (nodes w i) else nodes w j)"
  by (simp add: update_node_def split: option.splits)

lemma console_error_fields [simp]:
  "storage (console_error m w) = storage w"
  "document_order (console_error m w) = document_order w"
  "nodes (console_error m w) = nodes w"
  by (simp_all add: console_error_def)

lemma extractShopId_fields [simp]:
  "storage (snd (extractShopId P u w)) = storage w"
  "document_order (snd (extractShopId P u w)) = document_order w"
  "nodes (snd (extractShopId P u w)) = nodes w"
  by (simp_all add: extractShopId_def split: option.splits sum.splits)

lemma getShopIdFromItemCard_fields [simp]:
  "storage (snd (getShopIdFromItemCard P i w)) = storage w"
  "document_order (snd (getShopIdFromItemCard P i w)) = document_order w"
  "nodes (snd (getShopIdFromItemCard P i w)) = nodes w"
  by (simp_all add: getShopIdFromItemCard_def split: option.splits)

lemma extractShopId_nonempty:
  "fst (extractShopId P u w) = Some s \<Longrightarrow> s \<noteq> []"
  by (auto simp: extractShopId_def extractShopId_try_def match_shop_host_def Let_def
      split: option.splits sum.splits if_splits)

lemma processItemCard_absent:
  "nodes w i = None \<Longrightarrow> processItemCard P i b w = w"
  by (simp add: processItemCard_def)

lemma processItemCard_done:
  "nodes w i = Some e \<Longrightarrow> hasAttribute ''data-shop-blocker-processed'' e \<Longrightarrow>
   processItemCard P i b w = w"
  by (simp add: processItemCard_def)

lemma setAttribute_simps [simp]:
  "attributes (setAttribute a v e) = (attributes e)(a \<mapsto> v)"
  "style_display (setAttribute a v e) = style_display e"
  "style_attribute (setAttribute a v e) = style_attribute e"
  "classList (setAttribute a v e) = classList e"
  "descendants (setAttribute a v e) = descendants e"
  "nodeType (setAttribute a v e) = nodeType e"
  by (simp_all add: setAttribute_def)

lemma hide_element_simps [simp]:
  "attributes (hide_element e) = (attributes e)(''data-blocked-shop'' \<mapsto> ''true'')"
  "style_display (hide_element e) = ''none''"
  "style_attribute (hide_element e) = True"
  "classList (hide_element e) = classList e"
  "descendants (hide_element e) = descendants e"
  "nodeType (hide_element e) = nodeType e"
  by (simp_all add: hide_element_def)

lemma show_element_simps [simp]:
  "attributes (show_element e) = (attributes e)(''data-blocked-shop'' := None)"
  "style_display (show_element e) = []"
  "style_attribute (show_element e) = (style_display e \<noteq> [] \<or> style_attribute e)"
  "classList (show_element e) = classList e"
  "descendants (show_element e) = descendants e"
  "nodeType (show_element e) = nodeType e"
  by (simp_all add: show_element_def removeAttribute_def)

lemma processItemCard_nodes:
  assumes "nodes w i = Some e"
  shows "nodes (processItemCard P i b w) =
           (nodes w)(i \<mapsto> classify_element
              (fst (getShopIdFromItemCard P i
                 (update_node i (setAttribute ''data-shop-blocker-processed'' ''true'') w))) b e)"
proof (cases "hasAttribute ''data-shop-blocker-processed'' e")
  case True
  with assms show ?thesis
    by (auto simp: processItemCard_def classify_element_def)
next
  case False
  let ?w1 = "update_node i (setAttribute ''data-shop-blocker-processed'' ''true'') w"
  obtain s w2 where g: "getShopIdFromItemCard P i ?w1 = (s, w2)" by (cases "getShopIdFromItemCard P i ?w1")
  have n2: "nodes w2 = nodes ?w1" using getShopIdFromItemCard_fields(3) [of P i ?w1] g by simp
  have n1: "nodes ?w1 = (nodes w)(i \<mapsto> setAttribute ''data-shop-blocker-processed'' ''true'' e)"
    using assms by (simp add: update_node_def)
  show ?thesis
    using assms False g n2 n1
    by (auto simp: processItemCard_def classify_element_def Let_def hideItemCard_def
        update_node_def split: option.splits)
qed

lemma classify_element_processed:
  "hasAttribute ''data-shop-blocker-processed'' (classify_element s b e)"
  by (auto simp: classify_element_def hasAttribute_def Let_def split: option.splits)

text \<open>
  C3. Classifying an element a second time, with the same or with any other snapshot,
  returns the state unchanged: no visibility change and no further annotation. The
  reason is the guard: whatever the first classification found (no shop link, no shop
  id, a visible or a blocked shop), it left the processed marker on the element.
\<close>

theorem processItemCard_idempotent:
  "processItemCard P itemCard blocked2 (processItemCard P itemCard blocked1 w)
     = processItemCard P itemCard blocked1 w
   \<and> (nodes w itemCard = Some e \<longrightarrow>
        (\<exists>e'. nodes (processItemCard P itemCard blocked1 w) itemCard = Some e'
              \<and> hasAttribute ''data-shop-blocker-processed'' e'))"
proof (cases "nodes w itemCard")
  case None
  then show ?thesis by (simp add: processItemCard_absent)
next
  case (Some e0)
  let ?w' = "processItemCard P itemCard blocked1 w"
  from processItemCard_nodes [OF Some, of P blocked1]
  obtain e' where e': "nodes ?w' itemCard = Some e'"
    and p: "hasAttribute ''data-shop-blocker-processed'' e'"
    by (simp add: classify_element_processed)
  from e' p have "processItemCard P itemCard blocked2 ?w' = ?w'"
    by (rule processItemCard_done)
  with e' p show ?thesis by simp
qed


lemma has_class_update_node:
  "(\<And>e. classList (f e) = classList e) \<Longrightarrow> has_class c (update_node i f w) = has_class c w"
  by (auto simp: has_class_def fun_eq_iff nodes_update_node split: option.splits)

lemma querySelectorAll_class_update_node:
  "(\<And>e. classList (f e) = classList e) \<Longrightarrow> (\<And>e. descendants (f e) = descendants e) \<Longrightarrow>
   querySelectorAll_class c j (update_node i f w) = querySelectorAll_class c j w"
  by (auto simp: querySelectorAll_class_def has_class_update_node nodes_update_node
      split: option.splits)

lemma getAttribute_update_node_other:
  "(\<And>e. attributes (f e) a = attributes e a) \<Longrightarrow>
   getAttribute a j (update_node i f w) = getAttribute a j w"
  by (auto simp: getAttribute_def nodes_update_node split: option.splits)

lemma extractShopId_fst_state:
  "fst (extractShopId P u w) = fst (extractShopId P u w')"
  by (simp add: extractShopId_def split: option.splits sum.splits)

lemma getShopIdFromItemCard_after_mark:
  "fst (getShopIdFromItemCard P i
         (update_node j (setAttribute ''data-shop-blocker-processed'' ''true'') w))
     = fst (getShopIdFromItemCard P i w)"
proof -
  let ?w1 = "update_node j (setAttribute ''data-shop-blocker-processed'' ''true'') w"
  have q: "querySelector_class ''item-card__shop-name-anchor'' i ?w1
             = querySelector_class ''item-card__shop-name-anchor'' i w"
    by (simp add: querySelector_class_def querySelectorAll_class_update_node)
  have h: "\<And>a. getAttribute ''href'' a ?w1 = getAttribute ''href'' a w"
    by (rule getAttribute_update_node_other) simp
  show ?thesis
    unfolding getShopIdFromItemCard_def q
    by (auto simp: h split: option.splits intro: extractShopId_fst_state)
qed

text \<open>
  C6. When the shop link of an element yields no identifier (there is no link, the URL
  does not parse, the host is not a shop host, or the label is \<open>accounts\<close> or \<open>www\<close>),
  classification against any snapshot leaves its display style, its shop id annotation
  and its blocked marker as they were: the processed marker is the only thing written.
\<close>

theorem unresolved_card_left_alone:
  assumes "nodes w itemCard = Some e"
    and "fst (getShopIdFromItemCard P itemCard w) = None"
  shows "\<exists>e'. nodes (processItemCard P itemCard blocked w) itemCard = Some e'
           \<and> e' = (if hasAttribute ''data-shop-blocker-processed'' e then e
                    else setAttribute ''data-shop-blocker-processed'' ''true'' e)
           \<and> style_display e' = style_display e
           \<and> attributes e' ''data-shop-id'' = attributes e ''data-shop-id''
           \<and> attributes e' ''data-blocked-shop'' = attributes e ''data-blocked-shop''"
proof -
  have "nodes (processItemCard P itemCard blocked w) itemCard
          = Some (classify_element None blocked e)"
    using processItemCard_nodes [OF assms(1), of P blocked] assms(2)
    by (simp add: getShopIdFromItemCard_after_mark)
  then show ?thesis
    by (simp add: classify_element_def)
qed


lemma listing_page_shop_id:
  "getShopIdFromItemCard https_hostname 10 (listing_page href)
     = extractShopId https_hostname (Some href) (listing_page href)"
  by (simp add: getShopIdFromItemCard_def querySelector_class_def querySelectorAll_class_def
      has_class_def getAttribute_def listing_page_def item_card_def shop_anchor_def)

text \<open>
  A card of the shop \<open>foo\<close>, classified while \<open>foo\<close> is blocked and then again against
  the empty snapshot.
\<close>

theorem processItemCard_idempotent_witness:
  "nodes (listing_page ''https://foo.booth.pm/items/123'') 10 = Some item_card
   \<and> processItemCard https_hostname 10 Map.empty
        (processItemCard https_hostname 10 [''foo'' \<mapsto> a_record]
           (listing_page ''https://foo.booth.pm/items/123''))
       = processItemCard https_hostname 10 [''foo'' \<mapsto> a_record]
           (listing_page ''https://foo.booth.pm/items/123'')
   \<and> (\<exists>e'. nodes (processItemCard https_hostname 10 [''foo'' \<mapsto> a_record]
                  (listing_page ''https://foo.booth.pm/items/123'')) 10 = Some e'
            \<and> hasAttribute ''data-shop-blocker-processed'' e')"
proof -
  have h: "nodes (listing_page ''https://foo.booth.pm/items/123'') 10 = Some item_card"
    by (simp add: listing_page_def)
  from processItemCard_idempotent [of https_hostname 10 Map.empty "[''foo'' \<mapsto> a_record]"
      "listing_page ''https://foo.booth.pm/items/123''" item_card] h
  show ?thesis by blast
qed

text \<open>
  A card whose link goes to \<open>accounts.booth.pm\<close>, classified against a blocklist that
  has the key \<open>accounts\<close>: it stays visible and unannotated.
\<close>

theorem unresolved_card_left_alone_witness:
  "nodes (listing_page ''https://accounts.booth.pm/settings'') 10 = Some item_card
   \<and> fst (getShopIdFromItemCard https_hostname 10
            (listing_page ''https://accounts.booth.pm/settings'')) = None
   \<and> (\<exists>e'. nodes (processItemCard https_hostname 10 [''accounts'' \<mapsto> a_record]
                  (listing_page ''https://accounts.booth.pm/settings'')) 10 = Some e'
          \<and> e' = setAttribute ''data-shop-blocker-processed'' ''true'' item_card
          \<and> style_display e' = []
          \<and> attributes e' ''data-shop-id'' = None
          \<and> attributes e' ''data-blocked-shop'' = None)"
proof -
  let ?w = "listing_page ''https://accounts.booth.pm/settings''"
  have h1: "nodes ?w 10 = Some item_card"
    by (simp add: listing_page_def)
  have h2: "fst (getShopIdFromItemCard https_hostname 10 ?w) = None"
    by (simp add: listing_page_shop_id extractShopId_def extractShopId_try_def
        https_hostname_def match_shop_host_def)
  have np: "\<not> hasAttribute ''data-shop-blocker-processed'' item_card"
    by (simp add: hasAttribute_def item_card_def)
  from unresolved_card_left_alone [OF h1 h2, of "[''accounts'' \<mapsto> a_record]"] np
  have "\<exists>e'. nodes (processItemCard https_hostname 10 [''accounts'' \<mapsto> a_record] ?w) 10 = Some e'
          \<and> e' = setAttribute ''data-shop-blocker-processed'' ''true'' item_card
          \<and> style_display e' = style_display item_card
          \<and> attributes e' ''data-shop-id'' = attributes item_card ''data-shop-id''
          \<and> attributes e' ''data-blocked-shop'' = attributes item_card ''data-blocked-shop''"
    by simp
  then show ?thesis using h1 h2 by (simp add: item_card_def)
qed

section \<open>The reconciler\<close>

lemma update_node_id:
  "(\<And>e. nodes w i = Some e \<Longrightarrow> f e = e) \<Longrightarrow> update_node i f w = w"
  by (auto simp: update_node_def map_upd_triv split: option.splits)

lemma reconcile_card_update_node:
  "reconcile_card B i w = update_node i (reconcile_element B) w"
proof (cases "nodes w i")
  case None
  then show ?thesis by (simp add: reconcile_card_def getAttribute_def update_node_def)
next
  case (Some e)
  show ?thesis
  proof (cases "attributes e ''data-shop-id''")
    case None
    with Some have "update_node i (reconcile_element B) w = w"
      by (intro update_node_id) (simp add: reconcile_element_def)
    with Some None show ?thesis by (simp add: reconcile_card_def getAttribute_def)
  next
    case (Some s)
    show ?thesis
    proof (cases "s = []")
      case True
      with Some \<open>nodes w i = Some e\<close> have "update_node i (reconcile_element B) w = w"
        by (intro update_node_id) (simp add: reconcile_element_def)
      with Some True \<open>nodes w i = Some e\<close> show ?thesis
        by (simp add: reconcile_card_def getAttribute_def)
    next
      case False
      with Some \<open>nodes w i = Some e\<close> show ?thesis
        by (simp add: reconcile_card_def getAttribute_def reconcile_element_def
            hideItemCard_def showItemCard_def update_node_def)
    qed
  qed
qed

lemma fold_update_node_fields [simp]:
  "storage (fold (\<lambda>i. update_node i f) is w) = storage w"
  "document_order (fold (\<lambda>i. update_node i f) is w) = document_order w"
  "console (fold (\<lambda>i. update_node i f) is w) = console w"
  by (induction "is" arbitrary: w; simp)+

lemma fold_update_node_nodes:
  assumes "\<And>e. f (f e) = f e"
  shows "nodes (fold (\<lambda>i. update_node i f) is w) j =
           (if j \<in> set is then map_option f (nodes w j) else nodes w j)"
proof (induction "is" arbitrary: w)
  case Nil
  then show ?case by simp
next
  case (Cons i "is")
  show ?case
    by (cases "nodes w j") (auto simp: Cons.IH nodes_update_node assms)
qed

lemma reconcile_element_idem:
  "reconcile_element B (reconcile_element B e) = reconcile_element B e"
  by (auto simp: reconcile_element_def split: option.splits)

text \<open>The elements that the selector \<open>.item-card[data-shop-id]\<close> finds in the document.\<close>

lemma storage_listener_fields:
  "storage (storage_listener c a w) = storage w"
  "document_order (storage_listener c a w) = document_order w"
  "console (storage_listener c a w) = console w"
  by (simp_all add: storage_listener_def reconcile_card_update_node [abs_def] Let_def
      split: option.splits)

lemma storage_listener_nodes:
  "nodes (storage_listener (Some c) ''local'' w) j =
     (if j \<in> set (document_order w) \<and> has_class ''item-card'' w j
          \<and> getAttribute ''data-shop-id'' j w \<noteq> None
      then map_option (reconcile_element (case newValue c of None \<Rightarrow> Map.empty | Some b \<Rightarrow> b))
             (nodes w j)
      else nodes w j)"
  by (simp add: storage_listener_def reconcile_card_update_node [abs_def] Let_def
      fold_update_node_nodes reconcile_element_idem)

lemma storage_listener_skip:
  "c = None \<or> a \<noteq> ''local'' \<Longrightarrow> storage_listener c a w = w"
  by (auto simp: storage_listener_def split: option.splits)

lemma reconcile_element_frame:
  "(a \<noteq> ''data-blocked-shop'' \<longrightarrow> attributes (reconcile_element B e) a = attributes e a)
   \<and> classList (reconcile_element B e) = classList e
   \<and> nodeType (reconcile_element B e) = nodeType e
   \<and> descendants (reconcile_element B e) = descendants e
   \<and> (attributes e ''data-shop-id'' = None \<longrightarrow> reconcile_element B e = e)"
  by (auto simp: reconcile_element_def split: option.splits)

text \<open>
  C9. A pass of the storage listener, whatever the notification, leaves the storage, the
  document order and the console alone, creates and removes no node, and on every node
  keeps the class list, the node type, the descendants and every attribute other than
  \<open>data-blocked-shop\<close>: in particular the processed marker and the shop id annotation.
  A node without shop id annotation is left exactly as it was. So only the display
  style and the blocked marker are ever written.
\<close>

theorem storage_listener_frame:
  "storage (storage_listener change areaName w) = storage w
   \<and> document_order (storage_listener change areaName w) = document_order w
   \<and> console (storage_listener change areaName w) = console w
   \<and> (nodes w j = None \<longrightarrow> nodes (storage_listener change areaName w) j = None)
   \<and> (nodes w j = Some e \<longrightarrow>
        (\<exists>e'. nodes (storage_listener change areaName w) j = Some e'
           \<and> attributes e' ''data-shop-blocker-processed'' = attributes e ''data-shop-blocker-processed''
           \<and> attributes e' ''data-shop-id'' = attributes e ''data-shop-id''
           \<and> (\<forall>a. a \<noteq> ''data-blocked-shop'' \<longrightarrow> attributes e' a = attributes e a)
           \<and> classList e' = classList e \<and> nodeType e' = nodeType e
           \<and> descendants e' = descendants e
           \<and> (attributes e ''data-shop-id'' = None \<longrightarrow> e' = e)))"
proof (cases "change = None \<or> areaName \<noteq> ''local''")
  case True
  then show ?thesis by (simp add: storage_listener_skip)
next
  case False
  then obtain c where c: "change = Some c" and a: "areaName = ''local''" by auto
  show ?thesis
    unfolding c a
    using reconcile_element_frame [of _ _ e]
    by (auto simp: storage_listener_fields storage_listener_nodes)
qed

lemma hidden_hide_element: "hidden (hide_element e)"
  by (simp add: hidden_def)

lemma visible_show_element: "visible (show_element e)" "\<not> hidden (show_element e)"
  by (simp_all add: visible_def hidden_def)

text \<open>
  What a pass establishes: an element that the selector finds, annotated with a shop id
  that is not a name inherited from \<open>Object.prototype\<close>, is hidden when the id is a key
  of the new blocklist and shown otherwise.
\<close>

lemma reconciler_invariant_own_keys:
  assumes "nodes w j = Some e" and "j \<in> set (document_order w)"
    and "''item-card'' \<in> set (classList e)"
    and "attributes e ''data-shop-id'' = Some shopId" and "shopId \<noteq> []"
    and "shopId \<notin> set Object_prototype_keys"
  shows "\<exists>e'. nodes (storage_listener (Some c) ''local'' w) j = Some e'
           \<and> e' = (if shopId \<in> dom (case newValue c of None \<Rightarrow> Map.empty | Some b \<Rightarrow> b)
                    then hide_element e else show_element e)
           \<and> hidden e' = (shopId \<in> dom (case newValue c of None \<Rightarrow> Map.empty | Some b \<Rightarrow> b))
           \<and> visible e' = (shopId \<notin> dom (case newValue c of None \<Rightarrow> Map.empty | Some b \<Rightarrow> b))"
  using assms
  by (auto simp: storage_listener_nodes has_class_def getAttribute_def reconcile_element_def
      js_in_def hidden_hide_element visible_show_element visible_def hidden_def)


lemma classified_page_simps:
  "nodes (classified_page s d) 10 = Some (classified_card s d)"
  "nodes (classified_page s d) 11 = Some (shop_anchor (''https://'' @ s @ ''.booth.pm/''))"
  "nodes (classified_page s d) 12 = None"
  "document_order (classified_page s d) = [10, 11]"
  "storage (classified_page s d) = idle_storage"
  by (simp_all add: classified_page_def)

lemma classified_card_simps:
  "classList (classified_card s d) = [''item-card'']"
  "attributes (classified_card s d) ''data-shop-id'' = Some s"
  "attributes (classified_card s d) ''data-blocked-shop'' = None"
  "attributes (classified_card s d) ''data-shop-blocker-processed'' = Some ''true''"
  "style_display (classified_card s d) = d"
  by (simp_all add: classified_card_def)

text \<open>
  A pass over a page with one classified card of the shop \<open>foo\<close>, its anchor (a node
  without annotation) and an address that holds no node.
\<close>

theorem storage_listener_frame_witness:
  "nodes (classified_page ''foo'' []) 10 = Some (classified_card ''foo'' [])
   \<and> (\<exists>e'. nodes (storage_listener (Some \<lparr>oldValue = None, newValue = Some foo_blocklist\<rparr>)
                 ''local'' (classified_page ''foo'' [])) 10 = Some e'
          \<and> attributes e' ''data-shop-blocker-processed'' = Some ''true''
          \<and> attributes e' ''data-shop-id'' = Some ''foo''
          \<and> classList e' = [''item-card''])
   \<and> nodes (classified_page ''foo'' []) 11 = Some (shop_anchor ''https://foo.booth.pm/'')
   \<and> attributes (shop_anchor ''https://foo.booth.pm/'') ''data-shop-id'' = None
   \<and> nodes (storage_listener (Some \<lparr>oldValue = None, newValue = Some foo_blocklist\<rparr>)
                 ''local'' (classified_page ''foo'' [])) 11 = Some (shop_anchor ''https://foo.booth.pm/'')
   \<and> nodes (classified_page ''foo'' []) 12 = None
   \<and> nodes (storage_listener (Some \<lparr>oldValue = None, newValue = Some foo_blocklist\<rparr>)
                 ''local'' (classified_page ''foo'' [])) 12 = None"
proof -
  let ?w = "classified_page ''foo'' []"
  let ?c = "Some \<lparr>oldValue = None, newValue = Some foo_blocklist\<rparr>"
  have h10: "nodes ?w 10 = Some (classified_card ''foo'' [])"
    by (simp add: classified_page_simps)
  have h11: "nodes ?w 11 = Some (shop_anchor ''https://foo.booth.pm/'')"
    by (simp add: classified_page_simps)
  have a11: "attributes (shop_anchor ''https://foo.booth.pm/'') ''data-shop-id'' = None"
    by (simp add: shop_anchor_def)
  have h12: "nodes ?w 12 = None"
    by (simp add: classified_page_simps)
  have c10: "\<exists>e'. nodes (storage_listener ?c ''local'' ?w) 10 = Some e'
          \<and> attributes e' ''data-shop-blocker-processed'' = Some ''true''
          \<and> attributes e' ''data-shop-id'' = Some ''foo''
          \<and> classList e' = [''item-card'']"
    using storage_listener_frame [of ?c "''local''" ?w 10 "classified_card ''foo'' []"] h10
    by (auto simp: classified_card_simps)
  have c11: "nodes (storage_listener ?c ''local'' ?w) 11 = Some (shop_anchor ''https://foo.booth.pm/'')"
    using storage_listener_frame [of ?c "''local''" ?w 11 "shop_anchor ''https://foo.booth.pm/''"]
      h11 a11
    by auto
  have c12: "nodes (storage_listener ?c ''local'' ?w) 12 = None"
    using storage_listener_frame [of ?c "''local''" ?w 12] h12
    by auto
  from h10 h11 a11 h12 c10 c11 c12 show ?thesis by blast
qed

text \<open>
  C1 on a card of the shop \<open>constructor\<close>. The new blocklist is empty, so the shop is
  not blocked, but \<open>'constructor' in {}\<close> holds in JavaScript and the pass hides the card.
\<close>

theorem reconciler_hides_inherited_name:
  "nodes (classified_page ''constructor'' []) 10 = Some (classified_card ''constructor'' [])
   \<and> attributes (classified_card ''constructor'' []) ''data-shop-id'' = Some ''constructor''
   \<and> ''constructor'' \<notin> dom empty_blocklist
   \<and> nodes (storage_listener (Some \<lparr>oldValue = Some foo_blocklist, newValue = Some empty_blocklist\<rparr>)
        ''local'' (classified_page ''constructor'' [])) 10
       = Some (hide_element (classified_card ''constructor'' []))
   \<and> hidden (hide_element (classified_card ''constructor'' []))"
  by (simp add: storage_listener_nodes classified_page_simps classified_card_simps has_class_def
      getAttribute_def reconcile_element_def js_in_def Object_prototype_keys_def
      empty_blocklist_def hidden_hide_element)

text \<open>
  The classifier has the same membership test: a card that links to the shop
  \<open>constructor\<close> is hidden when it is classified against the empty blocklist.
\<close>

lemma classifier_hides_inherited_name:
  "nodes (processItemCard https_hostname 10 empty_blocklist
            (listing_page ''https://constructor.booth.pm/'')) 10
     = Some (hide_element (classified_card ''constructor'' []))"
proof -
  let ?w = "listing_page ''https://constructor.booth.pm/''"
  have n: "nodes ?w 10 = Some item_card" by (simp add: listing_page_def)
  have s: "fst (getShopIdFromItemCard https_hostname 10 ?w) = Some ''constructor''"
    by (simp add: listing_page_shop_id extractShopId_def extractShopId_try_def
        https_hostname_def match_shop_host_def)
  have c: "classify_element (Some ''constructor'') empty_blocklist item_card
             = hide_element (classified_card ''constructor'' [])"
    by (simp add: classify_element_def hasAttribute_def item_card_def classified_card_def
        setAttribute_def js_in_def Object_prototype_keys_def)
  show ?thesis
    using processItemCard_nodes [OF n, of https_hostname empty_blocklist] s c
    by (simp add: getShopIdFromItemCard_after_mark)
qed
section \<open>The storage module: results\<close>

lemma getAllBlocked_result:
  "fst (getAllBlocked w) = (if get_rejects (storage w) then Map.empty else stored_blocklist (storage w))"
  "nodes (snd (getAllBlocked w)) = nodes w"
  "document_order (snd (getAllBlocked w)) = document_order w"
  "storage (snd (getAllBlocked w)) = (storage w)\<lparr>calls := calls (storage w) @ [StorageGet]\<rparr>"
  "console (snd (getAllBlocked w)) =
     (if get_rejects (storage w) then console w @ [''Failed to get blocked shops:''] else console w)"
  by (simp_all add: getAllBlocked_def local_get_def Let_def stored_blocklist_def console_error_def
      split: option.splits)

lemma local_set_result:
  "fst (local_set v w) = (if set_rejects (storage w) then Inl StorageError else Inr ())"
  "nodes (snd (local_set v w)) = nodes w"
  "document_order (snd (local_set v w)) = document_order w"
  "console (snd (local_set v w)) = console w"
  "storage (snd (local_set v w)) =
     (if set_rejects (storage w) then (storage w)\<lparr>calls := calls (storage w) @ [StorageSet]\<rparr>
      else (storage w)\<lparr>calls := calls (storage w) @ [StorageSet], blockedShops := Some v\<rparr>)"
  by (simp_all add: local_set_def Let_def)

lemma blockShop_result:
  "fst (blockShop k n r t w) = (\<not> set_rejects (storage w))"
  "nodes (snd (blockShop k n r t w)) = nodes w"
  "document_order (snd (blockShop k n r t w)) = document_order w"
  "storage (snd (blockShop k n r t w)) =
     (if set_rejects (storage w)
      then (storage w)\<lparr>calls := calls (storage w) @ [StorageGet, StorageSet]\<rparr>
      else (storage w)\<lparr>calls := calls (storage w) @ [StorageGet, StorageSet],
             blockedShops := Some (js_assign k \<lparr>name = n, reason = r, timestamp = t\<rparr>
                (if get_rejects (storage w) then Map.empty else stored_blocklist (storage w)))\<rparr>)"
  by (simp_all add: blockShop_def getAllBlocked_def local_get_def local_set_def Let_def
      stored_blocklist_def console_error_def split: option.splits)

lemma unblockShop_result:
  "fst (unblockShop k w) = (\<not> set_rejects (storage w))"
  "nodes (snd (unblockShop k w)) = nodes w"
  "document_order (snd (unblockShop k w)) = document_order w"
  "storage (snd (unblockShop k w)) =
     (if set_rejects (storage w)
      then (storage w)\<lparr>calls := calls (storage w) @ [StorageGet, StorageSet]\<rparr>
      else (storage w)\<lparr>calls := calls (storage w) @ [StorageGet, StorageSet],
             blockedShops := Some (js_delete k
                (if get_rejects (storage w) then Map.empty else stored_blocklist (storage w)))\<rparr>)"
  by (simp_all add: unblockShop_def getAllBlocked_def local_get_def local_set_def Let_def
      stored_blocklist_def console_error_def split: option.splits)

lemma updateReason_result:
  "fst (updateReason k r w) =
     (js_get k (if get_rejects (storage w) then Map.empty else stored_blocklist (storage w)) \<noteq> Undefined
      \<and> \<not> set_rejects (storage w))"
  "nodes (snd (updateReason k r w)) = nodes w"
  "document_order (snd (updateReason k r w)) = document_order w"
  "storage (snd (updateReason k r w)) =
     (let b = (if get_rejects (storage w) then Map.empty else stored_blocklist (storage w))
      in case js_get k b of
           Undefined \<Rightarrow> (storage w)\<lparr>calls := calls (storage w) @ [StorageGet]\<rparr>
         | Record rec \<Rightarrow>
             if set_rejects (storage w)
             then (storage w)\<lparr>calls := calls (storage w) @ [StorageGet, StorageSet]\<rparr>
             else (storage w)\<lparr>calls := calls (storage w) @ [StorageGet, StorageSet],
                    blockedShops := Some (b(k \<mapsto> rec\<lparr>reason := r\<rparr>))\<rparr>
         | Inherited \<Rightarrow>
             if set_rejects (storage w)
             then (storage w)\<lparr>calls := calls (storage w) @ [StorageGet, StorageSet]\<rparr>
             else (storage w)\<lparr>calls := calls (storage w) @ [StorageGet, StorageSet],
                    blockedShops := Some b\<rparr>)"
  by (simp_all add: updateReason_def getAllBlocked_def local_get_def local_set_def Let_def
      stored_blocklist_def console_error_def split: option.splits property_value.splits)

lemma stored_blocklist_simps [simp]:
  "stored_blocklist (st\<lparr>calls := c\<rparr>) = stored_blocklist st"
  "stored_blocklist (st\<lparr>blockedShops := Some b\<rparr>) = b"
  by (simp_all add: stored_blocklist_def)

lemma js_get_Undefined_iff:
  "js_get k b = Undefined \<longleftrightarrow> b k = None \<and> k \<notin> set Object_prototype_keys"
  by (simp add: js_get_def split: option.splits)

text \<open>
  C7, as amended. When the storage calls succeed: \<open>blockShop k\<close>, for \<open>k\<close> other than
  \<open>__proto__\<close>, stores the record built from its arguments under \<open>k\<close>, creating it or
  replacing the one that was there (name, reason and timestamp are all overwritten);
  \<open>unblockShop k\<close> removes the record of \<open>k\<close>; \<open>updateReason k\<close> on a present \<open>k\<close> returns true
  and changes the reason of its record and nothing else; on an absent \<open>k\<close> that is not a
  name inherited from \<open>Object.prototype\<close> it returns false and leaves the stored value as
  it was; and none of the three operations changes the record of any other shop id.
\<close>

theorem shop_record_lifecycle:
  assumes "\<not> get_rejects (storage w)" and "\<not> set_rejects (storage w)"
  shows "(k \<noteq> ''__proto__'' \<longrightarrow>
            stored_blocklist (storage (snd (blockShop k n r t w))) k
              = Some \<lparr>name = n, reason = r, timestamp = t\<rparr>)
       \<and> (j \<noteq> k \<longrightarrow> stored_blocklist (storage (snd (blockShop k n r t w))) j
              = stored_blocklist (storage w) j)
       \<and> stored_blocklist (storage (snd (unblockShop k w))) k = None
       \<and> (j \<noteq> k \<longrightarrow> stored_blocklist (storage (snd (unblockShop k w))) j
              = stored_blocklist (storage w) j)
       \<and> (stored_blocklist (storage w) k = Some rec \<longrightarrow>
            fst (updateReason k r w)
            \<and> stored_blocklist (storage (snd (updateReason k r w))) k = Some (rec\<lparr>reason := r\<rparr>)
            \<and> name (rec\<lparr>reason := r\<rparr>) = name rec
            \<and> timestamp (rec\<lparr>reason := r\<rparr>) = timestamp rec)
       \<and> (stored_blocklist (storage w) k = None \<and> k \<notin> set Object_prototype_keys \<longrightarrow>
            \<not> fst (updateReason k r w)
            \<and> blockedShops (storage (snd (updateReason k r w))) = blockedShops (storage w))
       \<and> (j \<noteq> k \<longrightarrow> stored_blocklist (storage (snd (updateReason k r w))) j
              = stored_blocklist (storage w) j)"
proof (intro conjI impI)
  assume "k \<noteq> ''__proto__''"
  then show "stored_blocklist (storage (snd (blockShop k n r t w))) k
              = Some \<lparr>name = n, reason = r, timestamp = t\<rparr>"
    using assms by (simp add: blockShop_result js_assign_def)
next
  assume "j \<noteq> k"
  then show "stored_blocklist (storage (snd (blockShop k n r t w))) j = stored_blocklist (storage w) j"
    using assms by (simp add: blockShop_result js_assign_def)
next
  show "stored_blocklist (storage (snd (unblockShop k w))) k = None"
    using assms by (simp add: unblockShop_result js_delete_def)
next
  assume "j \<noteq> k"
  then show "stored_blocklist (storage (snd (unblockShop k w))) j = stored_blocklist (storage w) j"
    using assms by (simp add: unblockShop_result js_delete_def)
next
  assume a: "stored_blocklist (storage w) k = Some rec"
  then have g: "js_get k (stored_blocklist (storage w)) = Record rec"
    by (simp add: js_get_def)
  show "fst (updateReason k r w)"
    using assms g by (simp add: updateReason_result)
  show "stored_blocklist (storage (snd (updateReason k r w))) k = Some (rec\<lparr>reason := r\<rparr>)"
    using assms g by (simp add: updateReason_result)
  show "name (rec\<lparr>reason := r\<rparr>) = name rec" by simp
  show "timestamp (rec\<lparr>reason := r\<rparr>) = timestamp rec" by simp
next
  assume a: "stored_blocklist (storage w) k = None \<and> k \<notin> set Object_prototype_keys"
  then have g: "js_get k (stored_blocklist (storage w)) = Undefined"
    by (simp add: js_get_Undefined_iff)
  show "\<not> fst (updateReason k r w)"
    using assms g by (simp add: updateReason_result)
  show "blockedShops (storage (snd (updateReason k r w))) = blockedShops (storage w)"
    using assms g by (simp add: updateReason_result)
next
  assume "j \<noteq> k"
  then show "stored_blocklist (storage (snd (updateReason k r w))) j = stored_blocklist (storage w) j"
    using assms
    by (cases "js_get k (stored_blocklist (storage w))") (simp_all add: updateReason_result)
qed


lemma foo_world_simps:
  "get_rejects (storage foo_world) = False"
  "set_rejects (storage foo_world) = False"
  "stored_blocklist (storage foo_world) = foo_blocklist"
  "blockedShops (storage foo_world) = Some foo_blocklist"
  "calls (storage foo_world) = []"
  by (simp_all add: foo_world_def blank_page_def idle_storage_def stored_blocklist_def)

lemma foo_blocklist_simps:
  "foo_blocklist ''foo'' = Some a_record"
  "foo_blocklist ''bar'' = None"
  by (simp_all add: foo_blocklist_def)

text \<open>The three operations on a blocklist that holds the shop \<open>foo\<close> and not the shop \<open>bar\<close>.\<close>

theorem shop_record_lifecycle_witness:
  "\<not> get_rejects (storage foo_world) \<and> \<not> set_rejects (storage foo_world)
   \<and> stored_blocklist (storage foo_world) ''foo'' = Some a_record
   \<and> stored_blocklist (storage foo_world) ''bar'' = None
   \<and> stored_blocklist (storage (snd (blockShop ''bar'' ''Bar'' ''noise'' 7 foo_world))) ''bar''
       = Some \<lparr>name = ''Bar'', reason = ''noise'', timestamp = 7\<rparr>
   \<and> stored_blocklist (storage (snd (blockShop ''bar'' ''Bar'' ''noise'' 7 foo_world))) ''foo''
       = Some a_record
   \<and> stored_blocklist (storage (snd (unblockShop ''foo'' foo_world))) ''foo'' = None
   \<and> fst (updateReason ''foo'' ''resale'' foo_world)
   \<and> stored_blocklist (storage (snd (updateReason ''foo'' ''resale'' foo_world))) ''foo''
       = Some \<lparr>name = ''A shop'', reason = ''resale'', timestamp = 1700000000000\<rparr>
   \<and> \<not> fst (updateReason ''bar'' ''resale'' foo_world)
   \<and> blockedShops (storage (snd (updateReason ''bar'' ''resale'' foo_world)))
       = blockedShops (storage foo_world)"
proof -
  have h1: "\<not> get_rejects (storage foo_world)" and h2: "\<not> set_rejects (storage foo_world)"
    by (simp_all add: foo_world_simps)
  have f: "stored_blocklist (storage foo_world) ''foo'' = Some a_record"
    and b: "stored_blocklist (storage foo_world) ''bar'' = None"
    by (simp_all add: foo_world_simps foo_blocklist_simps)
  have nb: "''bar'' \<notin> set Object_prototype_keys" by (simp add: Object_prototype_keys_def)
  note block = shop_record_lifecycle [OF h1 h2, of "''bar''" "''Bar''" "''noise''" 7 "''foo''"]
  note upd = shop_record_lifecycle [OF h1 h2, of "''foo''" _ "''resale''" _ _ a_record]
  note absent = shop_record_lifecycle [OF h1 h2, of "''bar''" _ "''resale''"]
  have c1: "stored_blocklist (storage (snd (blockShop ''bar'' ''Bar'' ''noise'' 7 foo_world))) ''bar''
       = Some \<lparr>name = ''Bar'', reason = ''noise'', timestamp = 7\<rparr>"
    using block by simp
  have c2: "stored_blocklist (storage (snd (blockShop ''bar'' ''Bar'' ''noise'' 7 foo_world))) ''foo''
       = Some a_record"
    using block f by simp
  have c3: "stored_blocklist (storage (snd (unblockShop ''foo'' foo_world))) ''foo'' = None"
    using upd by simp
  have c4: "fst (updateReason ''foo'' ''resale'' foo_world)
      \<and> stored_blocklist (storage (snd (updateReason ''foo'' ''resale'' foo_world))) ''foo''
          = Some (a_record\<lparr>reason := ''resale''\<rparr>)"
    using upd f by simp
  have c5: "\<not> fst (updateReason ''bar'' ''resale'' foo_world)
      \<and> blockedShops (storage (snd (updateReason ''bar'' ''resale'' foo_world)))
          = blockedShops (storage foo_world)"
    using absent b nb by simp
  have r: "a_record\<lparr>reason := ''resale''\<rparr>
             = \<lparr>name = ''A shop'', reason = ''resale'', timestamp = 1700000000000\<rparr>"
    by (simp add: a_record_def)
  from h1 h2 f b c1 c2 c3 c4 c5 r show ?thesis by simp
qed

text \<open>
  C7 as stated fails when \<open>blockShop\<close> is called for a shop that is already blocked: the
  name, the reason and the timestamp of its record are replaced.
\<close>

theorem blockShop_overwrites_counterexample:
  "stored_blocklist (storage foo_world) ''foo'' = Some a_record
   \<and> stored_blocklist (storage (snd (blockShop ''foo'' ''Other'' ''again'' 1700000000001 foo_world))) ''foo''
       = Some \<lparr>name = ''Other'', reason = ''again'', timestamp = 1700000000001\<rparr>
   \<and> name a_record \<noteq> ''Other'' \<and> reason a_record \<noteq> ''again''
   \<and> timestamp a_record \<noteq> 1700000000001"
  by (simp add: blockShop_result foo_world_simps foo_blocklist_simps js_assign_def a_record_def)

text \<open>
  The two inherited names on which the operations differ from a plain mapping:
  \<open>updateReason\<close> finds \<open>constructor\<close> in every blocklist and reports success without
  changing it, and \<open>blockShop\<close> of \<open>__proto__\<close> reports success without adding a record.
\<close>

lemma updateReason_inherited_name:
  "stored_blocklist (storage foo_world) ''constructor'' = None
   \<and> fst (updateReason ''constructor'' ''resale'' foo_world)
   \<and> blockedShops (storage (snd (updateReason ''constructor'' ''resale'' foo_world)))
       = Some foo_blocklist"
  by (simp add: updateReason_result foo_world_simps foo_blocklist_def js_get_def
      Object_prototype_keys_def)

lemma blockShop_proto_name:
  "fst (blockShop ''__proto__'' ''Proto'' [] 7 foo_world)
   \<and> blockedShops (storage (snd (blockShop ''__proto__'' ''Proto'' [] 7 foo_world)))
       = Some foo_blocklist"
  by (simp add: blockShop_result foo_world_simps foo_blocklist_def js_assign_def)

text \<open>
  What the operations return and which storage calls they issue, for every state of
  the storage area. No operation raises: every result is a value. Each issues one
  read, and at most one write after it. A rejected write makes \<open>blockShop\<close>,
  \<open>unblockShop\<close> and \<open>updateReason\<close> return false and leaves the stored value unchanged.
  A rejected read makes \<open>getAllBlocked\<close> return the empty mapping, and the other
  operations go on with that mapping.
\<close>

lemma store_results:
  "fst (getAllBlocked w)
     = (if get_rejects (storage w) then Map.empty else stored_blocklist (storage w))
   \<and> fst (blockShop k n r t w) = (\<not> set_rejects (storage w))
   \<and> fst (unblockShop k w) = (\<not> set_rejects (storage w))
   \<and> fst (updateReason k r w)
       = (js_get k (if get_rejects (storage w) then Map.empty else stored_blocklist (storage w))
            \<noteq> Undefined
          \<and> \<not> set_rejects (storage w))
   \<and> calls (storage (snd (getAllBlocked w))) = calls (storage w) @ [StorageGet]
   \<and> calls (storage (snd (blockShop k n r t w))) = calls (storage w) @ [StorageGet, StorageSet]
   \<and> calls (storage (snd (unblockShop k w))) = calls (storage w) @ [StorageGet, StorageSet]
   \<and> calls (storage (snd (updateReason k r w)))
       = calls (storage w) @
           (if js_get k (if get_rejects (storage w) then Map.empty else stored_blocklist (storage w))
                 = Undefined
            then [StorageGet] else [StorageGet, StorageSet])
   \<and> (set_rejects (storage w) \<longrightarrow>
        blockedShops (storage (snd (blockShop k n r t w))) = blockedShops (storage w)
        \<and> blockedShops (storage (snd (unblockShop k w))) = blockedShops (storage w)
        \<and> blockedShops (storage (snd (updateReason k r w))) = blockedShops (storage w))"
proof (intro conjI impI)
  show "calls (storage (snd (updateReason k r w)))
       = calls (storage w) @
           (if js_get k (if get_rejects (storage w) then Map.empty else stored_blocklist (storage w))
                 = Undefined
            then [StorageGet] else [StorageGet, StorageSet])"
    by (cases "js_get k (if get_rejects (storage w) then Map.empty else stored_blocklist (storage w))")
      (simp_all add: updateReason_result Let_def)
next
  assume "set_rejects (storage w)"
  then show "blockedShops (storage (snd (updateReason k r w))) = blockedShops (storage w)"
    by (cases "js_get k (if get_rejects (storage w) then Map.empty else stored_blocklist (storage w))")
      (simp_all add: updateReason_result Let_def)
qed (simp_all add: getAllBlocked_result blockShop_result unblockShop_result updateReason_result)

text \<open>
  C8 on a storage area that holds the shop \<open>foo\<close>, rejects the read and accepts the
  write. \<open>blockShop\<close> of \<open>bar\<close> returns true, and the stored blocklist is then \<open>bar\<close> alone:
  the record of \<open>foo\<close> is lost. \<open>unblockShop\<close> of \<open>foo\<close> returns true and stores the empty
  blocklist. The failure of the read is reported by neither.
\<close>

theorem read_failure_reported_as_success:
  "get_rejects (storage unreadable_world) \<and> \<not> set_rejects (storage unreadable_world)
   \<and> blockedShops (storage unreadable_world) = Some foo_blocklist
   \<and> foo_blocklist ''foo'' = Some a_record
   \<and> fst (blockShop ''bar'' ''Bar'' ''noise'' 7 unreadable_world)
   \<and> stored_blocklist (storage (snd (blockShop ''bar'' ''Bar'' ''noise'' 7 unreadable_world))) ''bar''
       = Some \<lparr>name = ''Bar'', reason = ''noise'', timestamp = 7\<rparr>
   \<and> stored_blocklist (storage (snd (blockShop ''bar'' ''Bar'' ''noise'' 7 unreadable_world))) ''foo''
       = None
   \<and> fst (unblockShop ''foo'' unreadable_world)
   \<and> blockedShops (storage (snd (unblockShop ''foo'' unreadable_world))) = Some empty_blocklist"
  by (simp add: blockShop_result unblockShop_result unreadable_world_def blank_page_def
      idle_storage_def foo_blocklist_def js_assign_def js_delete_def empty_blocklist_def
      stored_blocklist_def)

text \<open>
  When the write is rejected instead, the failure is reported and nothing is stored.
\<close>

lemma write_failure_reported:
  "set_rejects (storage readonly_world)
   \<and> \<not> fst (blockShop ''bar'' ''Bar'' ''noise'' 7 readonly_world)
   \<and> \<not> fst (unblockShop ''foo'' readonly_world)
   \<and> \<not> fst (updateReason ''foo'' ''resale'' readonly_world)
   \<and> blockedShops (storage (snd (blockShop ''bar'' ''Bar'' ''noise'' 7 readonly_world)))
       = Some foo_blocklist"
  by (simp add: blockShop_result unblockShop_result updateReason_result readonly_world_def
      blank_page_def idle_storage_def)

lemma js_delete_absent: "b k = None \<Longrightarrow> js_delete k b = b"
  by (auto simp: js_delete_def)

text \<open>
  C10. When the storage calls succeed and \<open>shopId\<close> is not in the stored blocklist,
  \<open>unblockShop shopId\<close> returns true and the stored blocklist is the same mapping as
  before; the boolean is the one returned for any other shop id, present or not.
\<close>

theorem unblockShop_absent_key:
  assumes "\<not> get_rejects (storage w)" and "\<not> set_rejects (storage w)"
    and "stored_blocklist (storage w) shopId = None"
  shows "fst (unblockShop shopId w)
         \<and> stored_blocklist (storage (snd (unblockShop shopId w))) = stored_blocklist (storage w)
         \<and> fst (unblockShop other w) = fst (unblockShop shopId w)"
  using assms by (simp add: unblockShop_result js_delete_absent)

text \<open>Unblocking \<open>bar\<close> when only \<open>foo\<close> is blocked.\<close>

theorem unblockShop_absent_key_witness:
  "\<not> get_rejects (storage foo_world) \<and> \<not> set_rejects (storage foo_world)
   \<and> stored_blocklist (storage foo_world) ''bar'' = None
   \<and> stored_blocklist (storage foo_world) ''foo'' = Some a_record
   \<and> fst (unblockShop ''bar'' foo_world)
   \<and> stored_blocklist (storage (snd (unblockShop ''bar'' foo_world))) = foo_blocklist
   \<and> fst (unblockShop ''foo'' foo_world) = fst (unblockShop ''bar'' foo_world)"
proof -
  have h1: "\<not> get_rejects (storage foo_world)" and h2: "\<not> set_rejects (storage foo_world)"
    and h3: "stored_blocklist (storage foo_world) ''bar'' = None"
    and f: "stored_blocklist (storage foo_world) ''foo'' = Some a_record"
    by (simp_all add: foo_world_simps foo_blocklist_simps)
  from unblockShop_absent_key [OF h1 h2 h3, of "''foo''"] h1 h2 h3 f
  show ?thesis by (simp add: foo_world_simps)
qed

section \<open>Blocking and unblocking a shop\<close>

lemma show_hide_element:
  "attributes e ''data-blocked-shop'' = None \<Longrightarrow>
   show_element (hide_element e) = e\<lparr>style_display := [], style_attribute := True\<rparr>"
proof -
  assume a: "attributes e ''data-blocked-shop'' = None"
  then have "(attributes e)(''data-blocked-shop'' := None) = attributes e"
    by (metis fun_upd_triv)
  then show ?thesis
    by (simp add: show_element_def hide_element_def setAttribute_def removeAttribute_def)
qed

lemma after_block_node:
  assumes ok: "\<not> set_rejects (storage w)"
    and e: "nodes w i = Some e" "i \<in> set (document_order w)" "''item-card'' \<in> set (classList e)"
    and x: "attributes e ''data-shop-id'' = Some X" "X \<noteq> []" "X \<notin> set Object_prototype_keys"
  shows "nodes (after_block X n r t w) i = Some (hide_element e)"
proof -
  let ?w1 = "snd (blockShop X n r t w)"
  let ?B0 = "if get_rejects (storage w) then Map.empty else stored_blocklist (storage w)"
  have nv: "blockedShops (storage ?w1) = Some (js_assign X \<lparr>name = n, reason = r, timestamp = t\<rparr> ?B0)"
    using ok by (simp add: blockShop_result)
  have "X \<noteq> ''__proto__''" using x(3) by (auto simp: Object_prototype_keys_def)
  then have d: "X \<in> dom (js_assign X \<lparr>name = n, reason = r, timestamp = t\<rparr> ?B0)"
    by (simp add: js_assign_def)
  have "nodes ?w1 i = Some e" "i \<in> set (document_order ?w1)"
    using e by (simp_all add: blockShop_result)
  from reconciler_invariant_own_keys [OF this e(3) x,
      of "\<lparr>oldValue = blockedShops (storage w), newValue = blockedShops (storage ?w1)\<rparr>"]
  show ?thesis
    unfolding after_block_def notify_def using d nv by auto
qed

lemma after_block_storage:
  "\<not> set_rejects (storage w) \<Longrightarrow>
   blockedShops (storage (after_block X n r t w))
     = Some (js_assign X \<lparr>name = n, reason = r, timestamp = t\<rparr>
         (if get_rejects (storage w) then Map.empty else stored_blocklist (storage w)))
   \<and> set_rejects (storage (after_block X n r t w)) = set_rejects (storage w)
   \<and> get_rejects (storage (after_block X n r t w)) = get_rejects (storage w)
   \<and> document_order (after_block X n r t w) = document_order w"
  by (simp add: after_block_def notify_def storage_listener_fields blockShop_result)

lemma after_unblock_node:
  assumes ok: "\<not> set_rejects (storage w)"
    and e: "nodes w i = Some e" "i \<in> set (document_order w)" "''item-card'' \<in> set (classList e)"
    and x: "attributes e ''data-shop-id'' = Some X" "X \<noteq> []" "X \<notin> set Object_prototype_keys"
  shows "nodes (after_unblock X w) i = Some (show_element e)"
proof -
  let ?w1 = "snd (unblockShop X w)"
  let ?B0 = "if get_rejects (storage w) then Map.empty else stored_blocklist (storage w)"
  have nv: "blockedShops (storage ?w1) = Some (js_delete X ?B0)"
    using ok by (simp add: unblockShop_result)
  have d: "X \<notin> dom (js_delete X ?B0)"
    by (simp add: js_delete_def)
  have "nodes ?w1 i = Some e" "i \<in> set (document_order ?w1)"
    using e by (simp_all add: unblockShop_result)
  from reconciler_invariant_own_keys [OF this e(3) x,
      of "\<lparr>oldValue = blockedShops (storage w), newValue = blockedShops (storage ?w1)\<rparr>"]
  show ?thesis
    unfolding after_unblock_def notify_def using d nv by auto
qed

lemma roundtrip_node:
  assumes "\<not> set_rejects (storage w)"
    and "nodes w i = Some e" and "i \<in> set (document_order w)"
    and "''item-card'' \<in> set (classList e)"
    and "attributes e ''data-shop-id'' = Some X" and "X \<noteq> []"
    and "X \<notin> set Object_prototype_keys"
  shows "nodes (after_unblock X (after_block X n r t w)) i = Some (show_element (hide_element e))"
proof -
  let ?w2 = "after_block X n r t w"
  have n2: "nodes ?w2 i = Some (hide_element e)"
    using assms by (rule after_block_node)
  have s2: "\<not> set_rejects (storage ?w2)" "i \<in> set (document_order ?w2)"
    using assms(1,3) by (simp_all add: after_block_storage)
  show ?thesis
    using s2(1) n2 s2(2)
    by (rule after_unblock_node) (use assms in simp_all)
qed

text \<open>
  C5, as amended. Let an element of the document be an item card annotated with the shop
  id \<open>X\<close> (not a name inherited from \<open>Object.prototype\<close>) and visible, and let the write
  to the storage succeed. After \<open>blockShop X\<close> and its notification the element is
  hidden. After \<open>unblockShop X\<close> and its notification it is visible again: the blocked
  marker is gone, the other attributes, the classes and the descendants are as before,
  the inline \<open>display\<close> is empty, and the element has a \<open>style\<close> attribute, the one that
  hiding left. So the inline display of before the block is restored only when it was
  empty, and the element is exactly as before only when, besides, it already had a
  \<open>style\<close> attribute.
\<close>

theorem block_unblock_roundtrip:
  assumes "\<not> set_rejects (storage w)"
    and "nodes w i = Some e" and "i \<in> set (document_order w)"
    and "''item-card'' \<in> set (classList e)"
    and "attributes e ''data-shop-id'' = Some X" and "X \<noteq> []"
    and "X \<notin> set Object_prototype_keys"
    and "visible e"
  shows "(\<exists>e1. nodes (after_block X n r t w) i = Some e1 \<and> hidden e1)
         \<and> nodes (after_unblock X (after_block X n r t w)) i
             = Some (e\<lparr>style_display := [], style_attribute := True\<rparr>)
         \<and> visible (e\<lparr>style_display := [], style_attribute := True\<rparr>)
         \<and> (nodes (after_unblock X (after_block X n r t w)) i = Some e
              \<longleftrightarrow> style_display e = [] \<and> style_attribute e)"
proof -
  let ?w2 = "after_block X n r t w"
  let ?e4 = "e\<lparr>style_display := [], style_attribute := True\<rparr>"
  have n2: "nodes ?w2 i = Some (hide_element e)"
    using assms(1-7) by (rule after_block_node)
  have "nodes (after_unblock X ?w2) i = Some (show_element (hide_element e))"
    using assms(1-7) by (rule roundtrip_node)
  moreover have "attributes e ''data-blocked-shop'' = None"
    using assms(8) by (simp add: visible_def)
  ultimately have n4: "nodes (after_unblock X ?w2) i = Some ?e4"
    by (simp add: show_hide_element)
  have eq: "(?e4 = e) = (style_display e = [] \<and> style_attribute e)"
    by (cases e) auto
  show ?thesis
    using n2 n4 assms(8) eq by (auto simp: hidden_hide_element visible_def)
qed

text \<open>
  A visible card of the shop \<open>foo\<close> without inline style: the round trip leaves it
  visible, with an empty inline display and a \<open>style\<close> attribute it did not have.
\<close>

theorem block_unblock_roundtrip_witness:
  "\<not> set_rejects (storage (classified_page ''foo'' []))
   \<and> nodes (classified_page ''foo'' []) 10 = Some (classified_card ''foo'' [])
   \<and> visible (classified_card ''foo'' [])
   \<and> \<not> style_attribute (classified_card ''foo'' [])
   \<and> (\<exists>e1. nodes (after_block ''foo'' ''Foo'' ''spam'' 5 (classified_page ''foo'' [])) 10 = Some e1
          \<and> hidden e1)
   \<and> nodes (after_unblock ''foo'' (after_block ''foo'' ''Foo'' ''spam'' 5 (classified_page ''foo'' []))) 10
       = Some ((classified_card ''foo'' [])\<lparr>style_display := [], style_attribute := True\<rparr>)
   \<and> nodes (after_unblock ''foo'' (after_block ''foo'' ''Foo'' ''spam'' 5 (classified_page ''foo'' []))) 10
       \<noteq> Some (classified_card ''foo'' [])"
proof -
  let ?w = "classified_page ''foo'' []"
  let ?e = "classified_card ''foo'' []"
  have h1: "\<not> set_rejects (storage ?w)"
    by (simp add: classified_page_simps idle_storage_def)
  have h2: "nodes ?w 10 = Some ?e" by (simp add: classified_page_simps)
  have h3: "10 \<in> set (document_order ?w)" by (simp add: classified_page_simps)
  have h4: "''item-card'' \<in> set (classList ?e)" by (simp add: classified_card_simps)
  have h5: "attributes ?e ''data-shop-id'' = Some ''foo''" by (simp add: classified_card_simps)
  have h6: "''foo'' \<noteq> []" by simp
  have h7: "''foo'' \<notin> set Object_prototype_keys" by (simp add: Object_prototype_keys_def)
  have h8: "visible ?e" by (simp add: visible_def classified_card_simps)
  have d: "\<not> style_attribute ?e" by (simp add: classified_card_def)
  from block_unblock_roundtrip [OF h1 h2 h3 h4 h5 h6 h7 h8, of "''Foo''" "''spam''" 5] d
  show ?thesis using h1 h2 h8 by auto
qed

text \<open>
  C5 as stated fails on a visible card with the inline style \<open>display: flex\<close>: after the
  round trip its inline display is empty, not \<open>flex\<close>.
\<close>

theorem roundtrip_loses_display_counterexample:
  "nodes (classified_page ''foo'' ''flex'') 10 = Some (classified_card ''foo'' ''flex'')
   \<and> visible (classified_card ''foo'' ''flex'')
   \<and> style_display (classified_card ''foo'' ''flex'') = ''flex''
   \<and> nodes (after_unblock ''foo'' (after_block ''foo'' ''Foo'' ''spam'' 5 (classified_page ''foo'' ''flex''))) 10
       = Some ((classified_card ''foo'' ''flex'')\<lparr>style_display := []\<rparr>)
   \<and> style_display ((classified_card ''foo'' ''flex'')\<lparr>style_display := []\<rparr>) \<noteq> ''flex''"
proof -
  let ?w = "classified_page ''foo'' ''flex''"
  let ?e = "classified_card ''foo'' ''flex''"
  have h1: "\<not> set_rejects (storage ?w)"
    by (simp add: classified_page_simps idle_storage_def)
  have h2: "nodes ?w 10 = Some ?e" by (simp add: classified_page_simps)
  have h3: "10 \<in> set (document_order ?w)" by (simp add: classified_page_simps)
  have h4: "''item-card'' \<in> set (classList ?e)" by (simp add: classified_card_simps)
  have h5: "attributes ?e ''data-shop-id'' = Some ''foo''" by (simp add: classified_card_simps)
  have h7: "''foo'' \<notin> set Object_prototype_keys" by (simp add: Object_prototype_keys_def)
  have h8: "visible ?e" by (simp add: visible_def classified_card_simps)
  have "show_element (hide_element ?e) = ?e\<lparr>style_display := [], style_attribute := True\<rparr>"
    by (rule show_hide_element) (simp add: classified_card_simps)
  also have "\<dots> = ?e\<lparr>style_display := []\<rparr>"
    by (simp add: classified_card_def)
  finally have "nodes (after_unblock ''foo'' (after_block ''foo'' ''Foo'' ''spam'' 5 ?w)) 10
       = Some (?e\<lparr>style_display := []\<rparr>)"
    using roundtrip_node [OF h1 h2 h3 h4 h5 _ h7, of "''Foo''" "''spam''" 5] by simp
  then show ?thesis using h2 h8 by (simp add: classified_card_simps)
qed
section \<open>The mutation pipeline\<close>

lemma update_node_storage_commute:
  "update_node i f (w\<lparr>storage := st\<rparr>) = (update_node i f w)\<lparr>storage := st\<rparr>"
  by (simp add: update_node_def split: option.splits)

lemma extractShopId_storage_commute:
  "extractShopId P u (w\<lparr>storage := st\<rparr>)
     = (fst (extractShopId P u w), (snd (extractShopId P u w))\<lparr>storage := st\<rparr>)"
  by (simp add: extractShopId_def console_error_def split: option.splits sum.splits)

lemma has_class_storage [simp]:
  "has_class c (w\<lparr>storage := st\<rparr>) = has_class c w"
  by (simp add: has_class_def fun_eq_iff)

lemma querySelectorAll_class_storage [simp]:
  "querySelectorAll_class c i (w\<lparr>storage := st\<rparr>) = querySelectorAll_class c i w"
  by (simp add: querySelectorAll_class_def split: option.splits)

lemma getAttribute_storage [simp]:
  "getAttribute a i (w\<lparr>storage := st\<rparr>) = getAttribute a i w"
  by (simp add: getAttribute_def)

lemma getShopIdFromItemCard_storage_commute:
  "getShopIdFromItemCard P i (w\<lparr>storage := st\<rparr>)
     = (fst (getShopIdFromItemCard P i w), (snd (getShopIdFromItemCard P i w))\<lparr>storage := st\<rparr>)"
  by (simp add: getShopIdFromItemCard_def querySelector_class_def extractShopId_storage_commute
      split: option.splits list.splits)

lemma processItemCard_storage_commute:
  "processItemCard P i b (w\<lparr>storage := st\<rparr>) = (processItemCard P i b w)\<lparr>storage := st\<rparr>"
  by (simp add: processItemCard_def update_node_storage_commute Let_def hideItemCard_def
      getShopIdFromItemCard_storage_commute split_beta split: option.splits)

lemma fold_storage_commute:
  assumes "\<And>x w. f x (w\<lparr>storage := st\<rparr>) = (f x w)\<lparr>storage := st\<rparr>"
  shows "fold f xs (w\<lparr>storage := st\<rparr>) = (fold f xs w)\<lparr>storage := st\<rparr>"
  by (induction xs arbitrary: w) (simp_all add: assms)

lemma process_added_node_storage_commute:
  "process_added_node P b n (w\<lparr>storage := st\<rparr>) = (process_added_node P b n w)\<lparr>storage := st\<rparr>"
  by (simp add: process_added_node_def Let_def processItemCard_storage_commute
      fold_storage_commute split: option.splits)

lemma observer_callback_storage_commute:
  "observer_callback P b ms (w\<lparr>storage := st\<rparr>) = (observer_callback P b ms w)\<lparr>storage := st\<rparr>"
  unfolding observer_callback_def
  by (intro fold_storage_commute) (simp add: process_added_node_storage_commute)

lemma observer_callback_storage:
  "storage (observer_callback P b ms w) = storage w"
proof -
  have "observer_callback P b ms (w\<lparr>storage := storage w\<rparr>)
          = (observer_callback P b ms w)\<lparr>storage := storage w\<rparr>"
    by (rule observer_callback_storage_commute)
  then have "observer_callback P b ms w = (observer_callback P b ms w)\<lparr>storage := storage w\<rparr>"
    by simp
  then have "storage (observer_callback P b ms w)
               = storage ((observer_callback P b ms w)\<lparr>storage := storage w\<rparr>)"
    by simp
  then show ?thesis by simp
qed

lemma has_class_links:
  "has_class c w j = (case links_of w j of None \<Rightarrow> False | Some x \<Rightarrow> c \<in> set (fst (snd x)))"
  by (simp add: has_class_def links_of_def split: option.splits)

lemma links_has_class:
  "links_of w' = links_of w \<Longrightarrow> has_class c w' = has_class c w"
  by (simp add: has_class_links fun_eq_iff)

lemma links_querySelectorAll:
  assumes "links_of w' = links_of w"
  shows "querySelectorAll_class c i w' = querySelectorAll_class c i w"
proof -
  from assms have "links_of w' i = links_of w i" by simp
  then have "map_option descendants (nodes w' i) = map_option descendants (nodes w i)"
    by (cases "nodes w' i"; cases "nodes w i"; simp add: links_of_def)
  then show ?thesis
    by (cases "nodes w' i"; cases "nodes w i";
        simp add: querySelectorAll_class_def links_has_class [OF assms])
qed

lemma links_href:
  assumes "links_of w' = links_of w"
  shows "getAttribute ''href'' a w' = getAttribute ''href'' a w"
proof -
  from assms have "links_of w' a = links_of w a" by simp
  then show ?thesis
    by (cases "nodes w' a"; cases "nodes w a"; simp add: getAttribute_def links_of_def)
qed

lemma links_shop_id:
  assumes "links_of w' = links_of w"
  shows "fst (getShopIdFromItemCard P i w') = fst (getShopIdFromItemCard P i w)"
  unfolding getShopIdFromItemCard_def querySelector_class_def
    links_querySelectorAll [OF assms] links_href [OF assms]
  by (auto split: list.splits intro: extractShopId_fst_state)

lemma links_found_cards:
  assumes "links_of w' = links_of w"
  shows "found_cards w' n = found_cards w n"
proof -
  from assms have "links_of w' n = links_of w n" by simp
  then have "map_option (\<lambda>e. (nodeType e, classList e)) (nodes w' n)
               = map_option (\<lambda>e. (nodeType e, classList e)) (nodes w n)"
    by (cases "nodes w' n"; cases "nodes w n"; simp add: links_of_def)
  then show ?thesis
    by (cases "nodes w' n"; cases "nodes w n";
        simp add: found_cards_def links_querySelectorAll [OF assms])
qed

lemma classify_element_links:
  "nodeType (classify_element s b e) = nodeType e"
  "classList (classify_element s b e) = classList e"
  "descendants (classify_element s b e) = descendants e"
  "attributes (classify_element s b e) ''href'' = attributes e ''href''"
  by (auto simp: classify_element_def Let_def split: option.splits)

lemma classify_element_idem:
  "classify_element s' b' (classify_element s b e) = classify_element s b e"
  using classify_element_processed [of s b e]
  by (simp add: classify_element_def [of s' b'])

lemma processItemCard_node:
  "nodes (processItemCard P i b w) j =
     (if j = i then map_option (classify_element (fst (getShopIdFromItemCard P i w)) b) (nodes w i)
      else nodes w j)"
proof (cases "nodes w i")
  case None
  then show ?thesis by (simp add: processItemCard_absent)
next
  case (Some e)
  show ?thesis
    using processItemCard_nodes [OF Some, of P b] Some
    by (simp add: getShopIdFromItemCard_after_mark)
qed

lemma processItemCard_links:
  "links_of (processItemCard P i b w) = links_of w"
proof
  fix j
  show "links_of (processItemCard P i b w) j = links_of w j"
    by (cases "nodes w i") (simp_all add: links_of_def processItemCard_node classify_element_links)
qed

lemma fold_processItemCard_links:
  "links_of (fold (\<lambda>i. processItemCard P i b) cards w) = links_of w"
  by (induction cards arbitrary: w) (simp_all add: processItemCard_links)

lemma fold_processItemCard_node:
  "nodes (fold (\<lambda>i. processItemCard P i b) cards w) j =
     (if j \<in> set cards
      then map_option (classify_element (fst (getShopIdFromItemCard P j w)) b) (nodes w j)
      else nodes w j)"
proof (induction cards arbitrary: w)
  case Nil
  then show ?case by simp
next
  case (Cons i cards)
  let ?w1 = "processItemCard P i b w"
  have s: "fst (getShopIdFromItemCard P j ?w1) = fst (getShopIdFromItemCard P j w)"
    by (rule links_shop_id) (rule processItemCard_links)
  show ?case
    by (cases "nodes w j")
      (auto simp: Cons.IH s processItemCard_node classify_element_idem)
qed


lemma process_added_node_links:
  "links_of (process_added_node P b n w) = links_of w"
  by (simp add: process_added_node_def Let_def fold_processItemCard_links processItemCard_links
      split: option.splits)

lemma process_added_node_node:
  "nodes (process_added_node P b n w) j =
     (if j \<in> found_cards w n
      then map_option (classify_element (fst (getShopIdFromItemCard P j w)) b) (nodes w j)
      else nodes w j)"
proof (cases "nodes w n")
  case None
  then show ?thesis by (simp add: process_added_node_def found_cards_def)
next
  case (Some e)
  show ?thesis
  proof (cases "nodeType e = ELEMENT_NODE")
    case False
    with Some show ?thesis by (simp add: process_added_node_def found_cards_def)
  next
    case True
    let ?w1 = "if ''item-card'' \<in> set (classList e) then processItemCard P n b w else w"
    have l: "links_of ?w1 = links_of w" by (simp add: processItemCard_links)
    have q: "querySelectorAll_class ''item-card'' n ?w1 = querySelectorAll_class ''item-card'' n w"
      using l by (rule links_querySelectorAll)
    have s: "fst (getShopIdFromItemCard P j ?w1) = fst (getShopIdFromItemCard P j w)"
      using l by (rule links_shop_id)
    have p: "process_added_node P b n w
               = fold (\<lambda>i. processItemCard P i b) (querySelectorAll_class ''item-card'' n w) ?w1"
      using Some True q by (simp add: process_added_node_def Let_def)
    have f: "found_cards w n = (if ''item-card'' \<in> set (classList e) then {n} else {})
               \<union> set (querySelectorAll_class ''item-card'' n w)"
      using Some True by (simp add: found_cards_def)
    show ?thesis
      unfolding p f fold_processItemCard_node s
      by (cases "nodes w j") (auto simp: processItemCard_node classify_element_idem)
  qed
qed

lemma fold_added_nodes_links:
  "links_of (fold (process_added_node P b) ns w) = links_of w"
  by (induction ns arbitrary: w) (simp_all add: process_added_node_links)

lemma fold_added_nodes_node:
  "nodes (fold (process_added_node P b) ns w) j =
     (if j \<in> (\<Union>n \<in> set ns. found_cards w n)
      then map_option (classify_element (fst (getShopIdFromItemCard P j w)) b) (nodes w j)
      else nodes w j)"
proof (induction ns arbitrary: w)
  case Nil
  then show ?case by simp
next
  case (Cons n ns)
  let ?w1 = "process_added_node P b n w"
  have l: "links_of ?w1 = links_of w" by (rule process_added_node_links)
  have s: "fst (getShopIdFromItemCard P j ?w1) = fst (getShopIdFromItemCard P j w)"
    using l by (rule links_shop_id)
  have f: "\<And>m. found_cards ?w1 m = found_cards w m"
    using l by (rule links_found_cards)
  show ?case
    by (cases "nodes w j")
      (auto simp: Cons.IH s f process_added_node_node classify_element_idem)
qed

lemma observer_callback_links:
  "links_of (observer_callback P b ms w) = links_of w"
  unfolding observer_callback_def
  by (induction ms arbitrary: w) (simp_all add: fold_added_nodes_links)

lemma observer_callback_node:
  "nodes (observer_callback P b ms w) j =
     (if j \<in> discovered w ms
      then map_option (classify_element (fst (getShopIdFromItemCard P j w)) b) (nodes w j)
      else nodes w j)"
  unfolding observer_callback_def discovered_def
proof (induction ms arbitrary: w)
  case Nil
  then show ?case by simp
next
  case (Cons m ms)
  let ?w1 = "fold (process_added_node P b) (addedNodes m) w"
  have l: "links_of ?w1 = links_of w" by (rule fold_added_nodes_links)
  have s: "fst (getShopIdFromItemCard P j ?w1) = fst (getShopIdFromItemCard P j w)"
    using l by (rule links_shop_id)
  have f: "\<And>n. found_cards ?w1 n = found_cards w n"
    using l by (rule links_found_cards)
  show ?case
    by (cases "nodes w j")
      (auto simp: Cons.IH s f fold_added_nodes_node classify_element_idem)
qed


lemma getShopIdFromItemCard_nonempty:
  "fst (getShopIdFromItemCard P i w) = Some s \<Longrightarrow> s \<noteq> []"
  by (auto simp: getShopIdFromItemCard_def split: option.splits dest: extractShopId_nonempty)

lemma observer_callback_card:
  "j \<in> discovered w ms \<Longrightarrow>
   nodes (observer_callback P b ms w) j = nodes (processItemCard P j b w) j"
  by (simp add: observer_callback_node processItemCard_node)

lemma observer_callback_other:
  "j \<notin> discovered w ms \<Longrightarrow> nodes (observer_callback P b ms w) j = nodes w j"
  by (simp add: observer_callback_node)

lemma processItemCard_blocked:
  assumes "nodes w j = Some e" and "\<not> hasAttribute ''data-shop-blocker-processed'' e"
    and "fst (getShopIdFromItemCard P j w) = Some s" and "b s \<noteq> None"
  shows "\<exists>e'. nodes (processItemCard P j b w) j = Some e' \<and> hidden e'
           \<and> attributes e' ''data-shop-id'' = Some s"
proof -
  have "s \<noteq> []" using assms(3) by (rule getShopIdFromItemCard_nonempty)
  then show ?thesis
    using assms
    by (simp add: processItemCard_node classify_element_def js_in_def hidden_def)
qed

lemma processItemCard_unblocked:
  assumes "nodes w j = Some e" and "\<not> hasAttribute ''data-shop-blocker-processed'' e"
    and "fst (getShopIdFromItemCard P j w) = Some s" and "b s = None"
    and "s \<notin> set Object_prototype_keys"
  shows "\<exists>e'. nodes (processItemCard P j b w) j = Some e'
           \<and> style_display e' = style_display e
           \<and> attributes e' ''data-blocked-shop'' = attributes e ''data-blocked-shop''
           \<and> attributes e' ''data-shop-id'' = Some s"
proof -
  have "s \<noteq> []" using assms(3) by (rule getShopIdFromItemCard_nonempty)
  then show ?thesis
    using assms
    by (simp add: processItemCard_node classify_element_def js_in_def)
qed

text \<open>
  C4. \<open>observeNewItems\<close> reads the storage exactly once, when it is called, and the value
  it captures is the blocklist stored at that moment (empty when the read is rejected).
  Whatever events come before a mutation batch, also writes to the stored blocklist, the
  batch is handled by the callback with the captured value. On every item card found in
  the batch (an added node that is a card, or a card below an added node) the batch
  does what \<open>processItemCard\<close> does with the captured value, and it changes no other node.
  So a card not yet processed whose link yields a shop id ends the batch hidden when
  the id is a key of the captured blocklist, and keeps its display and has no new
  blocked marker when the id is not a key (and is not a name inherited from
  \<open>Object.prototype\<close>), whatever the storage holds by then. The callback issues no storage
  call, and its effect on the page does not depend on what the storage holds.
\<close>

theorem observer_uses_setup_snapshot:
  "calls (storage (snd (observeNewItems w))) = calls (storage w) @ [StorageGet]
   \<and> fst (observeNewItems w)
       = (if get_rejects (storage w) then Map.empty else stored_blocklist (storage w))
   \<and> nodes (snd (observeNewItems w)) = nodes w
   \<and> run_page P (fst (observeNewItems w)) (evs @ [MutationBatch mutations]) w'
       = observer_callback P (fst (observeNewItems w)) mutations
           (run_page P (fst (observeNewItems w)) evs w')
   \<and> nodes (observer_callback P captured mutations w') j
       = (if j \<in> discovered w' mutations then nodes (processItemCard P j captured w') j
          else nodes w' j)
   \<and> (j \<in> discovered w' mutations \<and> nodes w' j = Some e
        \<and> \<not> hasAttribute ''data-shop-blocker-processed'' e
        \<and> fst (getShopIdFromItemCard P j w') = Some s \<and> captured s \<noteq> None
      \<longrightarrow> (\<exists>e'. nodes (observer_callback P captured mutations w') j = Some e' \<and> hidden e'
              \<and> attributes e' ''data-shop-id'' = Some s))
   \<and> (j \<in> discovered w' mutations \<and> nodes w' j = Some e
        \<and> \<not> hasAttribute ''data-shop-blocker-processed'' e
        \<and> fst (getShopIdFromItemCard P j w') = Some s \<and> captured s = None
        \<and> s \<notin> set Object_prototype_keys
      \<longrightarrow> (\<exists>e'. nodes (observer_callback P captured mutations w') j = Some e'
              \<and> style_display e' = style_display e
              \<and> attributes e' ''data-blocked-shop'' = attributes e ''data-blocked-shop''
              \<and> attributes e' ''data-shop-id'' = Some s))
   \<and> storage (observer_callback P captured mutations w') = storage w'
   \<and> observer_callback P captured mutations (w'\<lparr>storage := st\<rparr>)
       = (observer_callback P captured mutations w')\<lparr>storage := st\<rparr>"
proof (intro conjI impI)
  show "run_page P (fst (observeNewItems w)) (evs @ [MutationBatch mutations]) w'
       = observer_callback P (fst (observeNewItems w)) mutations
           (run_page P (fst (observeNewItems w)) evs w')"
    by (simp add: run_page_def page_step_def)
next
  show "nodes (observer_callback P captured mutations w') j
       = (if j \<in> discovered w' mutations then nodes (processItemCard P j captured w') j
          else nodes w' j)"
    by (simp add: observer_callback_card observer_callback_other)
next
  assume a: "j \<in> discovered w' mutations \<and> nodes w' j = Some e
        \<and> \<not> hasAttribute ''data-shop-blocker-processed'' e
        \<and> fst (getShopIdFromItemCard P j w') = Some s \<and> captured s \<noteq> None"
  then have "\<exists>e'. nodes (processItemCard P j captured w') j = Some e' \<and> hidden e'
           \<and> attributes e' ''data-shop-id'' = Some s"
    using processItemCard_blocked [where w = w' and j = j and e = e and P = P and s = s
        and b = captured]
    by blast
  with a show "\<exists>e'. nodes (observer_callback P captured mutations w') j = Some e' \<and> hidden e'
              \<and> attributes e' ''data-shop-id'' = Some s"
    by (simp add: observer_callback_card)
next
  assume a: "j \<in> discovered w' mutations \<and> nodes w' j = Some e
        \<and> \<not> hasAttribute ''data-shop-blocker-processed'' e
        \<and> fst (getShopIdFromItemCard P j w') = Some s \<and> captured s = None
        \<and> s \<notin> set Object_prototype_keys"
  then have "\<exists>e'. nodes (processItemCard P j captured w') j = Some e'
           \<and> style_display e' = style_display e
           \<and> attributes e' ''data-blocked-shop'' = attributes e ''data-blocked-shop''
           \<and> attributes e' ''data-shop-id'' = Some s"
    using processItemCard_unblocked [where w = w' and j = j and e = e and P = P and s = s
        and b = captured]
    by blast
  with a show "\<exists>e'. nodes (observer_callback P captured mutations w') j = Some e'
              \<and> style_display e' = style_display e
              \<and> attributes e' ''data-blocked-shop'' = attributes e ''data-blocked-shop''
              \<and> attributes e' ''data-shop-id'' = Some s"
    by (simp add: observer_callback_card)
qed (simp_all add: observeNewItems_def getAllBlocked_result observer_callback_storage
    observer_callback_storage_commute)

lemma late_events_run:
  "run_page P b late_events w
     = w\<lparr>storage := (storage w)\<lparr>blockedShops := Some foo_blocklist\<rparr>,
         nodes := nodes (listing_page ''https://foo.booth.pm/items/123''),
         document_order := [10, 11]\<rparr>"
  by (simp add: run_page_def page_step_def late_events_def)

lemma late_unblock_events_run:
  "run_page P b late_unblock_events w
     = w\<lparr>storage := (storage w)\<lparr>blockedShops := Some empty_blocklist\<rparr>,
         nodes := nodes (listing_page ''https://foo.booth.pm/items/123''),
         document_order := [10, 11]\<rparr>"
  by (simp add: run_page_def page_step_def late_unblock_events_def)

lemma foo_card_added:
  assumes "nodes w1 = nodes (listing_page ''https://foo.booth.pm/items/123'')"
  shows "nodes w1 10 = Some item_card"
    and "\<not> hasAttribute ''data-shop-blocker-processed'' item_card"
    and "fst (getShopIdFromItemCard https_hostname 10 w1) = Some ''foo''"
    and "10 \<in> discovered w1 [\<lparr>addedNodes = [10]\<rparr>]"
proof -
  show "nodes w1 10 = Some item_card" by (simp add: assms listing_page_def)
  show "\<not> hasAttribute ''data-shop-blocker-processed'' item_card"
    by (simp add: hasAttribute_def item_card_def)
  have l: "links_of w1 = links_of (listing_page ''https://foo.booth.pm/items/123'')"
    by (simp add: links_of_def fun_eq_iff assms)
  show "fst (getShopIdFromItemCard https_hostname 10 w1) = Some ''foo''"
    unfolding links_shop_id [OF l] listing_page_shop_id
    by (simp add: extractShopId_def extractShopId_try_def https_hostname_def match_shop_host_def)
  show "10 \<in> discovered w1 [\<lparr>addedNodes = [10]\<rparr>]"
    by (simp add: discovered_def found_cards_def assms listing_page_def item_card_def
        ELEMENT_NODE_def)
qed

text \<open>
  Two pages. On the first the observer is set up while \<open>foo\<close> is blocked; then \<open>foo\<close> is
  unblocked in the storage and a card of \<open>foo\<close> is added: the batch hides it, against
  the blocklist captured at setup. On the second the observer is set up while nothing
  is blocked; then \<open>foo\<close> is blocked in the storage and a card of \<open>foo\<close> is added: the
  batch leaves it visible.
\<close>

theorem observer_uses_setup_snapshot_witness:
  "fst (observeNewItems foo_world) = foo_blocklist
   \<and> calls (storage (snd (observeNewItems foo_world))) = [StorageGet]
   \<and> blockedShops (storage (run_page https_hostname (fst (observeNewItems foo_world))
         (late_unblock_events @ [MutationBatch [\<lparr>addedNodes = [10]\<rparr>]])
         (snd (observeNewItems foo_world))))
       = Some empty_blocklist
   \<and> (\<exists>e'. nodes (run_page https_hostname (fst (observeNewItems foo_world))
         (late_unblock_events @ [MutationBatch [\<lparr>addedNodes = [10]\<rparr>]])
         (snd (observeNewItems foo_world))) 10 = Some e'
        \<and> hidden e' \<and> attributes e' ''data-shop-id'' = Some ''foo'')
   \<and> fst (observeNewItems blank_page) = empty_blocklist
   \<and> blockedShops (storage (run_page https_hostname (fst (observeNewItems blank_page))
         (late_events @ [MutationBatch [\<lparr>addedNodes = [10]\<rparr>]]) (snd (observeNewItems blank_page))))
       = Some foo_blocklist
   \<and> (\<exists>e'. nodes (run_page https_hostname (fst (observeNewItems blank_page))
         (late_events @ [MutationBatch [\<lparr>addedNodes = [10]\<rparr>]])
         (snd (observeNewItems blank_page))) 10 = Some e'
        \<and> style_display e' = [] \<and> attributes e' ''data-blocked-shop'' = None
        \<and> attributes e' ''data-shop-id'' = Some ''foo'')"
proof -
  let ?ms = "[\<lparr>addedNodes = [10]\<rparr>]"
  let ?bA = "fst (observeNewItems foo_world)"
  let ?wA0 = "snd (observeNewItems foo_world)"
  let ?wA1 = "run_page https_hostname ?bA late_unblock_events ?wA0"
  let ?bB = "fst (observeNewItems blank_page)"
  let ?wB0 = "snd (observeNewItems blank_page)"
  let ?wB1 = "run_page https_hostname ?bB late_events ?wB0"
  note tA = observer_uses_setup_snapshot [where w = foo_world and P = https_hostname
      and evs = late_unblock_events and mutations = ?ms and w' = ?wA0]
  note uA = observer_uses_setup_snapshot [where w = foo_world and P = https_hostname
      and mutations = ?ms and w' = ?wA1 and captured = ?bA and j = 10 and e = item_card
      and s = "''foo''"]
  note tB = observer_uses_setup_snapshot [where w = blank_page and P = https_hostname
      and evs = late_events and mutations = ?ms and w' = ?wB0]
  note uB = observer_uses_setup_snapshot [where w = blank_page and P = https_hostname
      and mutations = ?ms and w' = ?wB1 and captured = ?bB and j = 10 and e = item_card
      and s = "''foo''"]
  have bA: "?bA = foo_blocklist"
    using tA [THEN conjunct2, THEN conjunct1] by (simp add: foo_world_simps)
  have cA: "calls (storage ?wA0) = [StorageGet]"
    using tA [THEN conjunct1] by (simp add: foo_world_simps)
  have bB: "?bB = empty_blocklist"
    using tB [THEN conjunct2, THEN conjunct1]
    by (simp add: blank_page_def idle_storage_def stored_blocklist_def empty_blocklist_def)
  have nA: "nodes ?wA1 = nodes (listing_page ''https://foo.booth.pm/items/123'')"
    and sA: "blockedShops (storage ?wA1) = Some empty_blocklist"
    by (simp_all add: late_unblock_events_run)
  have nB: "nodes ?wB1 = nodes (listing_page ''https://foo.booth.pm/items/123'')"
    and sB: "blockedShops (storage ?wB1) = Some foo_blocklist"
    by (simp_all add: late_events_run)
  have stepA: "run_page https_hostname ?bA (late_unblock_events @ [MutationBatch ?ms]) ?wA0
                 = observer_callback https_hostname ?bA ?ms ?wA1"
    by (rule tA [THEN conjunct2, THEN conjunct2, THEN conjunct2, THEN conjunct1])
  have stepB: "run_page https_hostname ?bB (late_events @ [MutationBatch ?ms]) ?wB0
                 = observer_callback https_hostname ?bB ?ms ?wB1"
    by (rule tB [THEN conjunct2, THEN conjunct2, THEN conjunct2, THEN conjunct1])
  have stA: "storage (observer_callback https_hostname ?bA ?ms ?wA1) = storage ?wA1"
    by (rule uA [THEN conjunct2, THEN conjunct2, THEN conjunct2, THEN conjunct2,
          THEN conjunct2, THEN conjunct2, THEN conjunct2, THEN conjunct1])
  have stB: "storage (observer_callback https_hostname ?bB ?ms ?wB1) = storage ?wB1"
    by (rule uB [THEN conjunct2, THEN conjunct2, THEN conjunct2, THEN conjunct2,
          THEN conjunct2, THEN conjunct2, THEN conjunct2, THEN conjunct1])
  have keyA: "?bA ''foo'' \<noteq> None"
    unfolding bA by (simp add: foo_blocklist_def)
  have keyB: "?bB ''foo'' = None" "''foo'' \<notin> set Object_prototype_keys"
    unfolding bB by (simp_all add: empty_blocklist_def Object_prototype_keys_def)
  have hidA: "\<exists>e'. nodes (observer_callback https_hostname ?bA ?ms ?wA1) 10 = Some e' \<and> hidden e'
              \<and> attributes e' ''data-shop-id'' = Some ''foo''"
    using uA [THEN conjunct2, THEN conjunct2, THEN conjunct2, THEN conjunct2, THEN conjunct2,
        THEN conjunct1] foo_card_added [OF nA] keyA
    by blast
  have visB: "\<exists>e'. nodes (observer_callback https_hostname ?bB ?ms ?wB1) 10 = Some e'
              \<and> style_display e' = style_display item_card
              \<and> attributes e' ''data-blocked-shop'' = attributes item_card ''data-blocked-shop''
              \<and> attributes e' ''data-shop-id'' = Some ''foo''"
    using uB [THEN conjunct2, THEN conjunct2, THEN conjunct2, THEN conjunct2, THEN conjunct2,
        THEN conjunct2, THEN conjunct1] foo_card_added [OF nB] keyB
    by blast
  have ic: "style_display item_card = []" "attributes item_card ''data-blocked-shop'' = None"
    by (simp_all add: item_card_def)
  show ?thesis
    unfolding stepA stepB stA stB sA sB
    using bA cA bB hidA visB ic by simp
qed

end
